theory Spec2Isabelle
  imports Main "HOL-Library.Word"
begin

section \<open>Host values\<close>

text \<open>
  The library \<^verbatim>\<open>src/lib/rejson.js\<close> is a class \<^verbatim>\<open>Rejson extends Redis\<close> whose methods
  marshal JavaScript values into the arguments of a Redis command and marshal the reply
  back. The embedding keeps three kinds of data apart:
  \<^item> document values, which callers hand in and which \<^verbatim>\<open>JSON.parse\<close> hands back
    (\<open>jsval\<close>);
  \<^item> raw replies, which a bound text invoker resolves to (\<open>reply\<close>);
  \<^item> the arguments an invoker is called with (\<open>arg\<close>).

  A JavaScript string is a sequence of 16-bit code units.
\<close>

type_synonym jstring = "16 word list"

definition ascii :: "string \<Rightarrow> jstring" where
  "ascii s = map (\<lambda>c. of_nat (of_char c)) s"

text \<open>
  The values a caller hands to a method and \<^verbatim>\<open>JSON.parse\<close> hands back: \<^verbatim>\<open>null\<close>,
  booleans, Numbers, strings, arrays and plain objects (own enumerable string-keyed data
  properties, in enumeration order); \<^verbatim>\<open>undefined\<close>, which is what a missing argument is;
  and BigInts, on which \<^verbatim>\<open>JSON.stringify\<close> throws. The Number type is the parameter
  \<open>'n\<close>: one element per Number value. These are finite trees of data: an object here
  has no accessor and no \<^verbatim>\<open>toJSON\<close> method, and symbols and functions are not among them.
  A tree cannot hold a cycle: of the inputs on which \<^verbatim>\<open>JSON.stringify\<close> throws, the model
  has the BigInt, alone or inside an array or an object, and not the cyclic structure.
\<close>

datatype 'n jsval =
    JUndefined
  | JNull
  | JBool bool
  | JNum 'n
  | JStr jstring
  | JArr "'n jsval list"
  | JObj "(jstring \<times> 'n jsval) list"
  | JBigInt int

text \<open>
  What a text invoker of the transport resolves to: a nil reply (\<^verbatim>\<open>null\<close>), a status or
  bulk string, an integer reply (delivered as a Number), or an array of replies.
\<close>

datatype 'n reply =
    RNull
  | RStr jstring
  | RNum 'n
  | RArr "'n reply list"

text \<open>
  The primitives of the host on Numbers. Binary floating point is not modelled: the
  conversions between Numbers and text are parameters of every definition that needs
  them, and every theorem holds for all of them.
  \<^item> \<open>number_one\<close>: the Number \<^verbatim>\<open>1\<close>;
  \<^item> \<open>is_finite\<close>: neither \<^verbatim>\<open>NaN\<close> nor an infinity;
  \<^item> \<open>number_to_string\<close>: \<^verbatim>\<open>Number::toString\<close> in radix 10;
  \<^item> \<open>number_of_json\<close>: the Number a JSON number token denotes;
  \<^item> \<open>parse_float\<close>: \<^verbatim>\<open>parseFloat\<close> on a string.
\<close>

record 'n numbers =
  number_one :: 'n
  is_finite :: "'n \<Rightarrow> bool"
  number_to_string :: "'n \<Rightarrow> jstring"
  number_of_json :: "jstring \<Rightarrow> 'n"
  parse_float :: "jstring \<Rightarrow> 'n"

text \<open>
  Exceptions. \<open>Error m\<close> is \<^verbatim>\<open>new Error(m)\<close>; \<open>SyntaxError\<close> is what \<^verbatim>\<open>JSON.parse\<close>
  throws; \<open>TypeError\<close> is thrown by a call of \<^verbatim>\<open>undefined\<close> (\<open>NotCallable\<close>) and by
  \<^verbatim>\<open>JSON.stringify\<close> when it reaches a BigInt (\<open>BigIntValue\<close>); \<open>TransportError\<close> stands
  for whatever the transport rejects a command with. The messages of \<open>SyntaxError\<close> and
  \<open>TypeError\<close> differ between engines and are left out.
\<close>

datatype cause =
    NotCallable
  | BigIntValue

datatype error =
    Error jstring
  | SyntaxError
  | TypeError cause
  | TransportError jstring

text \<open>
  A function applied to the elements of a list in order, as a loop does: the first
  exception (\<open>Inl\<close>) ends it.
\<close>

fun map_each :: "('a \<Rightarrow> error + 'b) \<Rightarrow> 'a list \<Rightarrow> error + 'b list" where
  "map_each f [] = Inr []"
| "map_each f (x # xs) =
     (case f x of
        Inl e \<Rightarrow> Inl e
      | Inr y \<Rightarrow> (case map_each f xs of Inl e \<Rightarrow> Inl e | Inr ys \<Rightarrow> Inr (y # ys)))"

section \<open>Conversion to string\<close>

text \<open>\<^verbatim>\<open>Array.prototype.join\<close> on strings already converted.\<close>

fun join :: "jstring \<Rightarrow> jstring list \<Rightarrow> jstring" where
  "join sep [] = []"
| "join sep [x] = x"
| "join sep (x # y # ys) = x @ sep @ join sep (y # ys)"

text \<open>
  \<^verbatim>\<open>ToString\<close> on a raw reply. An array converts through \<^verbatim>\<open>Array.prototype.join\<close>
  with separator \<^verbatim>\<open>","\<close>, in which a \<^verbatim>\<open>null\<close> element gives the empty string.
\<close>

primrec ToString :: "'n numbers \<Rightarrow> 'n reply \<Rightarrow> jstring" where
  "ToString N RNull = ascii ''null''"
| "ToString N (RStr s) = s"
| "ToString N (RNum x) = number_to_string N x"
| "ToString N (RArr rs) =
     join (ascii '','') (map (\<lambda>r. if r = RNull then [] else ToString N r) rs)"

section \<open>JSON.stringify\<close>

definition hex_digit :: "16 word \<Rightarrow> 16 word" where
  "hex_digit d = (if d < 10 then 0x30 + d else 0x61 + (d - 10))"

definition unicode_escape :: "16 word \<Rightarrow> jstring" where
  "unicode_escape c =
     [0x5C, 0x75,
      hex_digit (and (drop_bit 12 c) 0xF), hex_digit (and (drop_bit 8 c) 0xF),
      hex_digit (and (drop_bit 4 c) 0xF), hex_digit (and c 0xF)]"

definition high_surrogate :: "16 word \<Rightarrow> bool" where
  "high_surrogate c = (0xD800 \<le> c \<and> c \<le> 0xDBFF)"

definition low_surrogate :: "16 word \<Rightarrow> bool" where
  "low_surrogate c = (0xDC00 \<le> c \<and> c \<le> 0xDFFF)"

text \<open>
  One code point of \<^verbatim>\<open>QuoteJSONString\<close> that is a single code unit: the two-character
  escapes of backspace, tab, line feed, form feed, carriage return, the quotation mark
  and the backslash; \<^verbatim>\<open>\uXXXX\<close> (lowercase) for the other control characters and for a
  lone surrogate; the unit itself otherwise.
\<close>

definition quote_unit :: "16 word \<Rightarrow> jstring" where
  "quote_unit c =
     (if c = 0x08 then [0x5C, 0x62]
      else if c = 0x09 then [0x5C, 0x74]
      else if c = 0x0A then [0x5C, 0x6E]
      else if c = 0x0C then [0x5C, 0x66]
      else if c = 0x0D then [0x5C, 0x72]
      else if c = 0x22 then [0x5C, 0x22]
      else if c = 0x5C then [0x5C, 0x5C]
      else if c < 0x20 \<or> high_surrogate c \<or> low_surrogate c then unicode_escape c
      else [c])"

text \<open>The code points of a string, left to right: a surrogate pair is kept as it is.\<close>

fun quote_units :: "jstring \<Rightarrow> jstring" where
  "quote_units [] = []"
| "quote_units [c] = quote_unit c"
| "quote_units (c # d # cs) =
     (if high_surrogate c \<and> low_surrogate d then c # d # quote_units cs
      else quote_unit c @ quote_units (d # cs))"

definition QuoteJSONString :: "jstring \<Rightarrow> jstring" where
  "QuoteJSONString s = [0x22] @ quote_units s @ [0x22]"

text \<open>
  \<^verbatim>\<open>SerializeJSONProperty\<close> without replacer and without indentation. It returns a
  string, or \<^verbatim>\<open>undefined\<close> (\<open>None\<close>), or throws (\<open>Inl\<close>): a BigInt throws a
  \<open>TypeError\<close>, and an array or an object throws what its first element or property
  value, in order, throws. In an array an \<^verbatim>\<open>undefined\<close> element is written \<^verbatim>\<open>null\<close>; in an
  object a property whose value is \<^verbatim>\<open>undefined\<close> is left out.
\<close>

definition array_element :: "jstring option \<Rightarrow> jstring" where
  "array_element s = (case s of None \<Rightarrow> ascii ''null'' | Some t \<Rightarrow> t)"

definition object_member :: "jstring \<times> jstring option \<Rightarrow> jstring list" where
  "object_member m =
     (case snd m of None \<Rightarrow> [] | Some t \<Rightarrow> [QuoteJSONString (fst m) @ ascii '':'' @ t])"

text \<open>The serialization of a property value, with the key it belongs to.\<close>

definition property_value :: "jstring \<times> (error + 'a) \<Rightarrow> error + jstring \<times> 'a" where
  "property_value p = (case snd p of Inl e \<Rightarrow> Inl e | Inr x \<Rightarrow> Inr (fst p, x))"

primrec SerializeJSONProperty :: "'n numbers \<Rightarrow> 'n jsval \<Rightarrow> error + jstring option" where
  "SerializeJSONProperty N JUndefined = Inr None"
| "SerializeJSONProperty N JNull = Inr (Some (ascii ''null''))"
| "SerializeJSONProperty N (JBool b) = Inr (Some (if b then ascii ''true'' else ascii ''false''))"
| "SerializeJSONProperty N (JNum x) =
     Inr (Some (if is_finite N x then number_to_string N x else ascii ''null''))"
| "SerializeJSONProperty N (JStr s) = Inr (Some (QuoteJSONString s))"
| "SerializeJSONProperty N (JArr xs) =
     (case map_each id (map (SerializeJSONProperty N) xs) of
        Inl e \<Rightarrow> Inl e
      | Inr ss \<Rightarrow>
          Inr (Some (ascii ''['' @ join (ascii '','') (map array_element ss) @ ascii '']'')))"
| "SerializeJSONProperty N (JObj ps) =
     (case map_each property_value (map (map_prod id (SerializeJSONProperty N)) ps) of
        Inl e \<Rightarrow> Inl e
      | Inr ms \<Rightarrow>
          Inr (Some (ascii ''{'' @ join (ascii '','') (concat (map object_member ms)) @
                     ascii ''}'')))"
| "SerializeJSONProperty N (JBigInt i) = Inl (TypeError BigIntValue)"

text \<open>\<^verbatim>\<open>JSON.stringify(value)\<close>: a string, or \<^verbatim>\<open>undefined\<close>, or an exception.\<close>

definition JSON_stringify :: "'n numbers \<Rightarrow> 'n jsval \<Rightarrow> error + 'n jsval" where
  "JSON_stringify N v =
     (case SerializeJSONProperty N v of
        Inl e \<Rightarrow> Inl e
      | Inr None \<Rightarrow> Inr JUndefined
      | Inr (Some s) \<Rightarrow> Inr (JStr s))"

text \<open>Whether a value is a BigInt or holds one: the values \<^verbatim>\<open>JSON.stringify\<close> throws on.\<close>

primrec holds_BigInt :: "'n jsval \<Rightarrow> bool" where
  "holds_BigInt JUndefined = False"
| "holds_BigInt JNull = False"
| "holds_BigInt (JBool b) = False"
| "holds_BigInt (JNum x) = False"
| "holds_BigInt (JStr s) = False"
| "holds_BigInt (JArr xs) = (True \<in> set (map holds_BigInt xs))"
| "holds_BigInt (JObj ps) = (True \<in> set (map snd (map (map_prod id holds_BigInt) ps)))"
| "holds_BigInt (JBigInt i) = True"

section \<open>JSON.parse\<close>

text \<open>
  The JSON grammar of ECMA-404, as \<^verbatim>\<open>JSON.parse\<close> reads it (no reviver). The text is
  first cut into tokens by a scanner that reads one code unit at a time, then the tokens
  drive a stack machine that builds the value. Any text outside the grammar gives
  \<open>SyntaxError\<close>.
\<close>

definition is_whitespace :: "16 word \<Rightarrow> bool" where
  "is_whitespace c = (c = 0x09 \<or> c = 0x0A \<or> c = 0x0D \<or> c = 0x20)"

definition is_digit :: "16 word \<Rightarrow> bool" where
  "is_digit c = (0x30 \<le> c \<and> c \<le> 0x39)"

definition hex_value :: "16 word \<Rightarrow> 16 word option" where
  "hex_value c =
     (if 0x30 \<le> c \<and> c \<le> 0x39 then Some (c - 0x30)
      else if 0x41 \<le> c \<and> c \<le> 0x46 then Some (c - 0x37)
      else if 0x61 \<le> c \<and> c \<le> 0x66 then Some (c - 0x57)
      else None)"

definition hex4 :: "16 word list \<Rightarrow> 16 word" where
  "hex4 ds = foldl (\<lambda>a h. 16 * a + h) 0 ds"

text \<open>The code unit a two-character escape stands for, given the unit after the backslash.\<close>

definition unescape :: "16 word \<Rightarrow> 16 word option" where
  "unescape c =
     (if c = 0x22 then Some 0x22
      else if c = 0x2F then Some 0x2F
      else if c = 0x5C then Some 0x5C
      else if c = 0x62 then Some 0x08
      else if c = 0x66 then Some 0x0C
      else if c = 0x6E then Some 0x0A
      else if c = 0x72 then Some 0x0D
      else if c = 0x74 then Some 0x09
      else None)"

subsection \<open>Number tokens\<close>

text \<open>
  \<^verbatim>\<open>-? (0 | [1-9][0-9]*) (. [0-9]+)? ([eE] [+-]? [0-9]+)?\<close>. The scanner collects the
  longest run of the code units a number can hold and accepts the run when it is a
  number: a run that is not one is followed, in the grammar too, by a unit that no
  token can start with after a number.
\<close>

definition number_char :: "16 word \<Rightarrow> bool" where
  "number_char c =
     (is_digit c \<or> c = 0x2D \<or> c = 0x2B \<or> c = 0x2E \<or> c = 0x65 \<or> c = 0x45)"

definition digits1 :: "jstring \<Rightarrow> bool" where
  "digits1 cs = (cs \<noteq> [] \<and> list_all is_digit cs)"

definition number_exponent :: "jstring \<Rightarrow> bool" where
  "number_exponent cs =
     (case cs of
        [] \<Rightarrow> True
      | c # r \<Rightarrow>
          (c = 0x65 \<or> c = 0x45) \<and>
          (case r of
             [] \<Rightarrow> False
           | s # d \<Rightarrow> if s = 0x2B \<or> s = 0x2D then digits1 d else digits1 r))"

definition number_fraction :: "jstring \<Rightarrow> bool" where
  "number_fraction cs =
     (case cs of
        [] \<Rightarrow> True
      | c # r \<Rightarrow>
          if c = 0x2E
          then takeWhile is_digit r \<noteq> [] \<and> number_exponent (dropWhile is_digit r)
          else number_exponent cs)"

definition number_integer :: "jstring \<Rightarrow> bool" where
  "number_integer cs =
     (case cs of
        [] \<Rightarrow> False
      | c # r \<Rightarrow>
          if c = 0x30 then number_fraction r
          else 0x31 \<le> c \<and> c \<le> 0x39 \<and> number_fraction (dropWhile is_digit r))"

definition json_number :: "jstring \<Rightarrow> bool" where
  "json_number cs =
     (case cs of
        [] \<Rightarrow> False
      | c # r \<Rightarrow> if c = 0x2D then number_integer r else number_integer cs)"

subsection \<open>The scanner\<close>

datatype 'n token =
    LBrace
  | RBrace
  | LBracket
  | RBracket
  | Colon
  | Comma
  | Scalar "'n jsval"

text \<open>
  Where the scanner is: between tokens; inside a string (with the units decoded so
  far); after a backslash; inside \<^verbatim>\<open>\uXXXX\<close> (with the hexadecimal digits read so far);
  inside a number (with its units so far); inside \<^verbatim>\<open>null\<close>, \<^verbatim>\<open>true\<close> or \<^verbatim>\<open>false\<close> (with
  the units still expected and the value).
\<close>

datatype 'n mode =
    Idle
  | InString jstring
  | InEscape jstring
  | InUnicode jstring "16 word list"
  | InNumber jstring
  | InLiteral jstring "'n jsval"

text \<open>The first code unit of a token: the tokens it completes and the mode it leaves.\<close>

definition start :: "16 word \<Rightarrow> ('n token list \<times> 'n mode) option" where
  "start c =
     (if is_whitespace c then Some ([], Idle)
      else if c = 0x7B then Some ([LBrace], Idle)
      else if c = 0x7D then Some ([RBrace], Idle)
      else if c = 0x5B then Some ([LBracket], Idle)
      else if c = 0x5D then Some ([RBracket], Idle)
      else if c = 0x3A then Some ([Colon], Idle)
      else if c = 0x2C then Some ([Comma], Idle)
      else if c = 0x22 then Some ([], InString [])
      else if c = 0x2D \<or> is_digit c then Some ([], InNumber [c])
      else if c = 0x6E then Some ([], InLiteral (ascii ''ull'') JNull)
      else if c = 0x74 then Some ([], InLiteral (ascii ''rue'') (JBool True))
      else if c = 0x66 then Some ([], InLiteral (ascii ''alse'') (JBool False))
      else None)"

fun scan :: "'n numbers \<Rightarrow> 'n mode \<Rightarrow> jstring \<Rightarrow> 'n token list option" where
  "scan N Idle [] = Some []"
| "scan N Idle (c # cs) =
     (case start c of
        None \<Rightarrow> None
      | Some (ts, m) \<Rightarrow> map_option ((@) ts) (scan N m cs))"
| "scan N (InString acc) [] = None"
| "scan N (InString acc) (c # cs) =
     (if c = 0x22 then map_option ((#) (Scalar (JStr acc))) (scan N Idle cs)
      else if c = 0x5C then scan N (InEscape acc) cs
      else if c < 0x20 then None
      else scan N (InString (acc @ [c])) cs)"
| "scan N (InEscape acc) [] = None"
| "scan N (InEscape acc) (c # cs) =
     (if c = 0x75 then scan N (InUnicode acc []) cs
      else case unescape c of
             None \<Rightarrow> None
           | Some d \<Rightarrow> scan N (InString (acc @ [d])) cs)"
| "scan N (InUnicode acc ds) [] = None"
| "scan N (InUnicode acc ds) (c # cs) =
     (case hex_value c of
        None \<Rightarrow> None
      | Some h \<Rightarrow>
          if length ds = 3 then scan N (InString (acc @ [hex4 (ds @ [h])])) cs
          else scan N (InUnicode acc (ds @ [h])) cs)"
| "scan N (InNumber acc) [] =
     (if json_number acc then Some [Scalar (JNum (number_of_json N acc))] else None)"
| "scan N (InNumber acc) (c # cs) =
     (if number_char c then scan N (InNumber (acc @ [c])) cs
      else if json_number acc
      then (case start c of
              None \<Rightarrow> None
            | Some (ts, m) \<Rightarrow>
                map_option ((@) (Scalar (JNum (number_of_json N acc)) # ts)) (scan N m cs))
      else None)"
| "scan N (InLiteral rest v) [] = None"
| "scan N (InLiteral rest v) (c # cs) =
     (case rest of
        [] \<Rightarrow> None
      | r # rs \<Rightarrow>
          if c \<noteq> r then None
          else if rs = [] then map_option ((#) (Scalar v)) (scan N Idle cs)
          else scan N (InLiteral rs v) cs)"

subsection \<open>Object properties\<close>

text \<open>
  An object lists its array-index keys first, in ascending order, and then its other
  keys in the order they were created; defining a key that exists replaces its value
  where it stands. An array index is the canonical decimal form of an integer below
  \<open>2\<^sup>3\<^sup>2 - 1\<close>.
\<close>

definition decimal :: "jstring \<Rightarrow> int" where
  "decimal k = foldl (\<lambda>a c. 10 * a + uint (c - 0x30)) 0 k"

definition array_index :: "jstring \<Rightarrow> int option" where
  "array_index k =
     (if k = [0x30] then Some 0
      else if digits1 k \<and> hd k \<noteq> 0x30 \<and> decimal k < 2 ^ 32 - 1 then Some (decimal k)
      else None)"

fun replace_value :: "'k \<Rightarrow> 'v \<Rightarrow> ('k \<times> 'v) list \<Rightarrow> ('k \<times> 'v) list" where
  "replace_value k v [] = []"
| "replace_value k v (p # ps) = (if fst p = k then (k, v) # ps else p # replace_value k v ps)"

fun insert_index :: "int \<Rightarrow> jstring \<Rightarrow> 'v \<Rightarrow> (jstring \<times> 'v) list \<Rightarrow> (jstring \<times> 'v) list" where
  "insert_index i k v [] = [(k, v)]"
| "insert_index i k v (p # ps) =
     (case array_index (fst p) of
        None \<Rightarrow> (k, v) # p # ps
      | Some j \<Rightarrow> if j < i then p # insert_index i k v ps else (k, v) # p # ps)"

definition CreateDataProperty ::
  "(jstring \<times> 'v) list \<Rightarrow> jstring \<Rightarrow> 'v \<Rightarrow> (jstring \<times> 'v) list" where
  "CreateDataProperty ps k v =
     (if k \<in> set (map fst ps) then replace_value k v ps
      else case array_index k of
             None \<Rightarrow> ps @ [(k, v)]
           | Some i \<Rightarrow> insert_index i k v ps)"

subsection \<open>The stack machine\<close>

text \<open>
  An open container: an array with its elements so far, an object with its properties
  so far, or an object with the key whose value is being read.
\<close>

datatype 'n frame =
    InArray "'n jsval list"
  | InObject "(jstring \<times> 'n jsval) list"
  | InMember "(jstring \<times> 'n jsval) list" jstring

datatype 'n pstate =
    ExpectValue "'n frame list"
  | ExpectValueOrEnd "'n frame list"
  | ExpectKey "'n frame list"
  | ExpectKeyOrEnd "'n frame list"
  | ExpectColon "'n frame list"
  | ExpectCommaOrEnd "'n frame list"
  | Complete "'n jsval"

fun deliver :: "'n jsval \<Rightarrow> 'n frame list \<Rightarrow> 'n pstate option" where
  "deliver v [] = Some (Complete v)"
| "deliver v (InArray vs # st) = Some (ExpectCommaOrEnd (InArray (vs @ [v]) # st))"
| "deliver v (InMember ps k # st) =
     Some (ExpectCommaOrEnd (InObject (CreateDataProperty ps k v) # st))"
| "deliver v (InObject ps # st) = None"

fun begin_value :: "'n token \<Rightarrow> 'n frame list \<Rightarrow> 'n pstate option" where
  "begin_value (Scalar v) st = deliver v st"
| "begin_value LBracket st = Some (ExpectValueOrEnd (InArray [] # st))"
| "begin_value LBrace st = Some (ExpectKeyOrEnd (InObject [] # st))"
| "begin_value t st = None"

fun close_array :: "'n frame list \<Rightarrow> 'n pstate option" where
  "close_array (InArray vs # st) = deliver (JArr vs) st"
| "close_array st = None"

fun close_object :: "'n frame list \<Rightarrow> 'n pstate option" where
  "close_object (InObject ps # st) = deliver (JObj ps) st"
| "close_object st = None"

fun member_key :: "'n token \<Rightarrow> 'n frame list \<Rightarrow> 'n pstate option" where
  "member_key (Scalar (JStr k)) (InObject ps # st) = Some (ExpectColon (InMember ps k # st))"
| "member_key t st = None"

fun separator :: "'n frame list \<Rightarrow> 'n pstate option" where
  "separator (InArray vs # st) = Some (ExpectValue (InArray vs # st))"
| "separator (InObject ps # st) = Some (ExpectKey (InObject ps # st))"
| "separator st = None"

fun step :: "'n pstate \<Rightarrow> 'n token \<Rightarrow> 'n pstate option" where
  "step (ExpectValue st) t = begin_value t st"
| "step (ExpectValueOrEnd st) t =
     (case t of RBracket \<Rightarrow> close_array st | _ \<Rightarrow> begin_value t st)"
| "step (ExpectKey st) t = member_key t st"
| "step (ExpectKeyOrEnd st) t =
     (case t of RBrace \<Rightarrow> close_object st | _ \<Rightarrow> member_key t st)"
| "step (ExpectColon st) t = (case t of Colon \<Rightarrow> Some (ExpectValue st) | _ \<Rightarrow> None)"
| "step (ExpectCommaOrEnd st) t =
     (case t of
        Comma \<Rightarrow> separator st
      | RBracket \<Rightarrow> close_array st
      | RBrace \<Rightarrow> close_object st
      | _ \<Rightarrow> None)"
| "step (Complete v) t = None"

fun run :: "'n pstate \<Rightarrow> 'n token list \<Rightarrow> 'n pstate option" where
  "run s [] = Some s"
| "run s (t # ts) = (case step s t of None \<Rightarrow> None | Some s' \<Rightarrow> run s' ts)"

definition JSON_parse_text :: "'n numbers \<Rightarrow> jstring \<Rightarrow> error + 'n jsval" where
  "JSON_parse_text N s =
     (case scan N Idle s of
        None \<Rightarrow> Inl SyntaxError
      | Some ts \<Rightarrow>
          (case run (ExpectValue []) ts of
             Some (Complete v) \<Rightarrow> Inr v
           | _ \<Rightarrow> Inl SyntaxError))"

text \<open>
  \<^verbatim>\<open>JSON.parse(result)\<close> and \<^verbatim>\<open>parseFloat(result)\<close> on a raw reply: the argument is
  converted to a string first.
\<close>

definition JSON_parse :: "'n numbers \<Rightarrow> 'n reply \<Rightarrow> error + 'n jsval" where
  "JSON_parse N r = JSON_parse_text N (ToString N r)"

definition parseFloat :: "'n numbers \<Rightarrow> 'n reply \<Rightarrow> 'n" where
  "parseFloat N r = parse_float N (ToString N r)"

section \<open>Promises, invokers and the client\<close>

text \<open>
  A promise as its outcome: still pending for ever, fulfilled with a value, or rejected
  with an exception. \<^verbatim>\<open>p.then(f)\<close> runs \<open>f\<close> on the value of a fulfilled \<open>p\<close>; an
  exception thrown by \<open>f\<close> (\<open>Inl\<close>) rejects the new promise, and a rejection of \<open>p\<close>
  passes through.
\<close>

datatype 'a promise =
    Pending
  | Fulfilled 'a
  | Rejected error

fun promise_then :: "'a promise \<Rightarrow> ('a \<Rightarrow> error + 'b) \<Rightarrow> 'b promise" where
  "promise_then Pending f = Pending"
| "promise_then (Fulfilled v) f = (case f v of Inl e \<Rightarrow> Rejected e | Inr w \<Rightarrow> Fulfilled w)"
| "promise_then (Rejected e) f = Rejected e"

text \<open>
  An argument of an invoker: a value, or the client object itself (\<^verbatim>\<open>this\<close>), which is
  not a document value. A bound invoker takes the argument list of one call and returns
  the promise of the raw reply.
\<close>

datatype 'n arg =
    Val "'n jsval"
  | This

type_synonym 'n invoker = "'n arg list \<Rightarrow> 'n reply promise"

text \<open>
  What \<^verbatim>\<open>this.createBuiltinCommand(command)\<close> of the transport returns: the two
  functions \<^verbatim>\<open>cmd.string\<close> and \<^verbatim>\<open>cmd.buffer\<close>, each with its receiver as an explicit
  first parameter, so that \<^verbatim>\<open>f.bind(this)\<close> is the application \<open>f this\<close>. The type \<open>'t\<close>
  is the transport's part of the instance (what \<^verbatim>\<open>super(opts)\<close> set up).
\<close>

record ('t, 'n) builtin =
  cmd_string :: "'t \<Rightarrow> 'n invoker"
  cmd_buffer :: "'t \<Rightarrow> 'n invoker"

text \<open>
  The instance: \<^verbatim>\<open>this.cmds\<close>, a dictionary from property names to bound invokers.
  \<open>registered\<close> is not a field of the source: it records the calls of
  \<^verbatim>\<open>createBuiltinCommand\<close> that the constructor has made, in order.
\<close>

record 'n client =
  cmds :: "string \<Rightarrow> 'n invoker option"
  registered :: "string list"

definition commands :: "string list" where
  "commands =
     [''JSON.DEL'', ''JSON.GET'', ''JSON.MGET'', ''JSON.SET'', ''JSON.TYPE'',
      ''JSON.NUMINCRBY'', ''JSON.NUMMULTBY'', ''JSON.STRAPPEND'', ''JSON.STRLEN'',
      ''JSON.ARRAPPEND'', ''JSON.ARRINDEX'', ''JSON.ARRINSERT'', ''JSON.ARRLEN'',
      ''JSON.ARRPOP'', ''JSON.ARRTRIM'', ''JSON.OBJKEYS'', ''JSON.OBJLEN'', ''JSON.DEBUG'',
      ''JSON.FORGET'', ''JSON.RESP'']"

text \<open>One turn of the constructor's loop, for the table entry \<open>command\<close>.\<close>

definition bind_command ::
  "('t \<Rightarrow> string \<Rightarrow> ('t, 'n) builtin) \<Rightarrow> 't \<Rightarrow> string \<Rightarrow> 'n client \<Rightarrow> 'n client" where
  "bind_command createBuiltinCommand this command c =
     (let cmd = createBuiltinCommand this command
      in c\<lparr>cmds := (cmds c)(command \<mapsto> cmd_string cmd this,
                             command @ ''Buffer'' \<mapsto> cmd_buffer cmd this),
            registered := registered c @ [command]\<rparr>)"

text \<open>
  The constructor after \<^verbatim>\<open>super(opts)\<close>: \<^verbatim>\<open>this.cmds = {}\<close>, then the loop over the
  indices of \<^verbatim>\<open>Rejson.commands\<close> in ascending order.
\<close>

definition constructor ::
  "('t \<Rightarrow> string \<Rightarrow> ('t, 'n) builtin) \<Rightarrow> 't \<Rightarrow> 'n client" where
  "constructor createBuiltinCommand this =
     fold (bind_command createBuiltinCommand this) commands
       \<lparr>cmds = Map.empty, registered = []\<rparr>"

section \<open>The facade methods\<close>

text \<open>
  Every method reads \<^verbatim>\<open>this.cmds[name]\<close> and calls it: a name that is not in the
  dictionary reads as \<^verbatim>\<open>undefined\<close>, and the call throws a \<open>TypeError\<close> (\<open>Inl\<close>) before
  any promise exists. Otherwise the method returns a promise (\<open>Inr\<close>). Where an
  argument of the call is \<^verbatim>\<open>JSON.stringify(...)\<close>, it is evaluated before the call is
  attempted, so an exception of \<^verbatim>\<open>JSON.stringify\<close> comes first and nothing is called.
\<close>

definition jsonSet ::
  "'n numbers \<Rightarrow> 'n client \<Rightarrow> 'n jsval \<Rightarrow> 'n jsval \<Rightarrow> 'n jsval \<Rightarrow> error + bool promise" where
  "jsonSet N c key path v =
     (case JSON_stringify N v of
        Inl e \<Rightarrow> Inl e
      | Inr v' \<Rightarrow>
          (case cmds c ''JSON.SET'' of
             None \<Rightarrow> Inl (TypeError NotCallable)
           | Some cmd \<Rightarrow>
               Inr (promise_then (cmd [Val key, Val path, Val v'])
                     (\<lambda>result. if result = RStr (ascii ''OK'') then Inr True
                                else Inl (Error (ToString N result))))))"

definition jsonGet ::
  "'n numbers \<Rightarrow> 'n client \<Rightarrow> 'n jsval \<Rightarrow> 'n jsval \<Rightarrow> error + 'n jsval promise" where
  "jsonGet N c key path =
     (case cmds c ''JSON.GET'' of
        None \<Rightarrow> Inl (TypeError NotCallable)
      | Some cmd \<Rightarrow> Inr (promise_then (cmd [Val key, Val path]) (\<lambda>v. JSON_parse N v)))"

text \<open>
  \<^verbatim>\<open>map\<close> of lodash: over an array, the elements in order; over a string (which is
  array-like), its code units as one-unit strings; over \<^verbatim>\<open>null\<close> and over a Number,
  nothing. The iteratee is called on each in turn, and its first exception ends the call.
\<close>

definition collection :: "'n reply \<Rightarrow> 'n reply list" where
  "collection r =
     (case r of
        RArr rs \<Rightarrow> rs
      | RStr s \<Rightarrow> map (\<lambda>u. RStr [u]) s
      | _ \<Rightarrow> [])"

definition lodash_map :: "'n reply \<Rightarrow> ('n reply \<Rightarrow> error + 'b) \<Rightarrow> error + 'b list" where
  "lodash_map results iteratee = map_each iteratee (collection results)"

definition jsonMget ::
  "'n numbers \<Rightarrow> 'n client \<Rightarrow> 'n jsval list \<Rightarrow> error + 'n jsval list promise" where
  "jsonMget N c arguments =
     (case cmds c ''JSON.MGET'' of
        None \<Rightarrow> Inl (TypeError NotCallable)
      | Some cmd \<Rightarrow>
          Inr (promise_then (cmd (map Val arguments))
                (\<lambda>results. lodash_map results (\<lambda>v. JSON_parse N v))))"

definition jsonDel ::
  "'n numbers \<Rightarrow> 'n client \<Rightarrow> 'n jsval \<Rightarrow> 'n jsval \<Rightarrow> error + bool promise" where
  "jsonDel N c key path =
     (case cmds c ''JSON.DEL'' of
        None \<Rightarrow> Inl (TypeError NotCallable)
      | Some cmd \<Rightarrow>
          Inr (promise_then (cmd [Val key, Val path])
                (\<lambda>result. Inr (result = RNum (number_one N)))))"

definition jsonobjkeys ::
  "'n client \<Rightarrow> 'n jsval \<Rightarrow> 'n jsval \<Rightarrow> error + 'n reply promise" where
  "jsonobjkeys c key path =
     (case cmds c ''JSON.OBJKEYS'' of
        None \<Rightarrow> Inl (TypeError NotCallable)
      | Some cmd \<Rightarrow> Inr (cmd [This, Val key, Val path]))"

definition jsonObjlen ::
  "'n client \<Rightarrow> 'n jsval \<Rightarrow> 'n jsval \<Rightarrow> error + 'n reply promise" where
  "jsonObjlen c key path =
     (case cmds c ''JSON.OBJLEN'' of
        None \<Rightarrow> Inl (TypeError NotCallable)
      | Some cmd \<Rightarrow> Inr (cmd [Val key, Val path]))"

definition jsonType ::
  "'n client \<Rightarrow> 'n jsval \<Rightarrow> 'n jsval \<Rightarrow> error + 'n reply promise" where
  "jsonType c key path =
     (case cmds c ''JSON.TYPE'' of
        None \<Rightarrow> Inl (TypeError NotCallable)
      | Some cmd \<Rightarrow> Inr (cmd [Val key, Val path]))"

definition jsonNumincrby ::
  "'n numbers \<Rightarrow> 'n client \<Rightarrow> 'n jsval \<Rightarrow> 'n jsval \<Rightarrow> 'n jsval \<Rightarrow> error + 'n promise" where
  "jsonNumincrby N c key path number =
     (case cmds c ''JSON.NUMINCRBY'' of
        None \<Rightarrow> Inl (TypeError NotCallable)
      | Some cmd \<Rightarrow>
          Inr (promise_then (cmd [Val key, Val path, Val number])
                (\<lambda>result. Inr (parseFloat N result))))"

definition jsonNummultby ::
  "'n numbers \<Rightarrow> 'n client \<Rightarrow> 'n jsval \<Rightarrow> 'n jsval \<Rightarrow> 'n jsval \<Rightarrow> error + 'n promise" where
  "jsonNummultby N c key path number =
     (case cmds c ''JSON.NUMMULTBY'' of
        None \<Rightarrow> Inl (TypeError NotCallable)
      | Some cmd \<Rightarrow>
          Inr (promise_then (cmd [Val key, Val path, Val number])
                (\<lambda>result. Inr (parseFloat N result))))"

definition jsonStrappend ::
  "'n numbers \<Rightarrow> 'n client \<Rightarrow> 'n jsval \<Rightarrow> 'n jsval \<Rightarrow> 'n jsval \<Rightarrow> error + 'n reply promise" where
  "jsonStrappend N c key path str =
     (case JSON_stringify N str of
        Inl e \<Rightarrow> Inl e
      | Inr str' \<Rightarrow>
          (case cmds c ''JSON.STRAPPEND'' of
             None \<Rightarrow> Inl (TypeError NotCallable)
           | Some cmd \<Rightarrow> Inr (cmd [Val key, Val path, Val str'])))"

definition jsonStrlen ::
  "'n client \<Rightarrow> 'n jsval \<Rightarrow> 'n jsval \<Rightarrow> error + 'n reply promise" where
  "jsonStrlen c key path =
     (case cmds c ''JSON.STRLEN'' of
        None \<Rightarrow> Inl (TypeError NotCallable)
      | Some cmd \<Rightarrow> Inr (cmd [Val key, Val path]))"

text \<open>
  \<^verbatim>\<open>_arguments.slice(0, 2)\<close> is \<open>take 2\<close> and \<^verbatim>\<open>_arguments.slice(2)\<close> is \<open>drop 2\<close>, also
  on a shorter list; lodash's \<^verbatim>\<open>map\<close> over that array applies the iteratee to each
  element in order, and an exception of the iteratee ends the method.
\<close>

definition jsonArrappend ::
  "'n numbers \<Rightarrow> 'n client \<Rightarrow> 'n jsval list \<Rightarrow> error + 'n reply promise" where
  "jsonArrappend N c arguments =
     (let fixed = take 2 arguments
      in case map_each (\<lambda>item. JSON_stringify N item) (drop 2 arguments) of
           Inl e \<Rightarrow> Inl e
         | Inr items \<Rightarrow>
             (case cmds c ''JSON.ARRAPPEND'' of
                None \<Rightarrow> Inl (TypeError NotCallable)
              | Some cmd \<Rightarrow> Inr (cmd (map Val (fixed @ items)))))"

definition jsonArrindex ::
  "'n numbers \<Rightarrow> 'n client \<Rightarrow> 'n jsval \<Rightarrow> 'n jsval \<Rightarrow> 'n jsval \<Rightarrow> error + 'n reply promise" where
  "jsonArrindex N c key path scalar =
     (case JSON_stringify N scalar of
        Inl e \<Rightarrow> Inl e
      | Inr scalar' \<Rightarrow>
          (case cmds c ''JSON.ARRINDEX'' of
             None \<Rightarrow> Inl (TypeError NotCallable)
           | Some cmd \<Rightarrow> Inr (cmd [Val key, Val path, Val scalar'])))"

definition jsonArrinsert ::
  "'n numbers \<Rightarrow> 'n client \<Rightarrow> 'n jsval list \<Rightarrow> error + 'n reply promise" where
  "jsonArrinsert N c arguments =
     (let fixed = take 3 arguments
      in case map_each (\<lambda>item. JSON_stringify N item) (drop 3 arguments) of
           Inl e \<Rightarrow> Inl e
         | Inr items \<Rightarrow>
             (case cmds c ''JSON.ARRINSERT'' of
                None \<Rightarrow> Inl (TypeError NotCallable)
              | Some cmd \<Rightarrow> Inr (cmd (map Val (fixed @ items)))))"

definition jsonArrlen ::
  "'n client \<Rightarrow> 'n jsval \<Rightarrow> 'n jsval \<Rightarrow> error + 'n reply promise" where
  "jsonArrlen c key path =
     (case cmds c ''JSON.ARRLEN'' of
        None \<Rightarrow> Inl (TypeError NotCallable)
      | Some cmd \<Rightarrow> Inr (cmd [Val key, Val path]))"

definition jsonArrpop ::
  "'n numbers \<Rightarrow> 'n client \<Rightarrow> 'n jsval \<Rightarrow> 'n jsval \<Rightarrow> 'n jsval \<Rightarrow> error + 'n jsval promise" where
  "jsonArrpop N c key path index =
     (case cmds c ''JSON.ARRPOP'' of
        None \<Rightarrow> Inl (TypeError NotCallable)
      | Some cmd \<Rightarrow>
          Inr (promise_then (cmd [Val key, Val path, Val index]) (\<lambda>result. JSON_parse N result)))"

definition jsonArrtrim ::
  "'n client \<Rightarrow> 'n jsval \<Rightarrow> 'n jsval \<Rightarrow> 'n jsval \<Rightarrow> 'n jsval \<Rightarrow> error + 'n reply promise" where
  "jsonArrtrim c key path start_index end_index =
     (case cmds c ''JSON.ARRTRIM'' of
        None \<Rightarrow> Inl (TypeError NotCallable)
      | Some cmd \<Rightarrow> Inr (cmd [Val key, Val path, Val start_index, Val end_index]))"

section \<open>Concrete collaborators\<close>

text \<open>
  Numbers written as their decimal numerals, each numeral standing for itself: enough
  to run the definitions on concrete canonical texts.
\<close>

definition numerals :: "jstring numbers" where
  "numerals =
     \<lparr>number_one = ascii ''1'',
      is_finite = (\<lambda>x. True),
      number_to_string = (\<lambda>x. x),
      number_of_json = (\<lambda>s. s),
      parse_float = (\<lambda>s. s)\<rparr>"

text \<open>
  What an argument looks like in a reply that repeats it: a string and a Number as they
  are, the client object as the string it converts to, anything else as nil.
\<close>

definition sent :: "'n arg \<Rightarrow> 'n reply" where
  "sent a =
     (case a of
        This \<Rightarrow> RStr (ascii ''[object Object]'')
      | Val (JStr s) \<Rightarrow> RStr s
      | Val (JNum x) \<Rightarrow> RNum x
      | _ \<Rightarrow> RNull)"

text \<open>
  A transport whose invokers resolve to an array of what they were called with: the
  command name, the receiver they are bound to, and the arguments.
\<close>

definition echo :: "string \<Rightarrow> string \<Rightarrow> (string, 'n) builtin" where
  "echo this command =
     \<lparr>cmd_string =
        (\<lambda>receiver args.
           Fulfilled (RArr (RStr (ascii command) # RStr (ascii receiver) # map sent args))),
      cmd_buffer =
        (\<lambda>receiver args.
           Fulfilled (RArr (RStr (ascii command) # RStr (ascii receiver) # map sent args)))\<rparr>"

text \<open>A client all of whose invokers resolve to the arguments of the call.\<close>

definition recording :: "'n client" where
  "recording =
     \<lparr>cmds = (\<lambda>name. Some (\<lambda>args. Fulfilled (RArr (map sent args)))), registered = []\<rparr>"

text \<open>A client all of whose invokers settle as the given promise.\<close>

definition replying :: "'n reply promise \<Rightarrow> 'n client" where
  "replying p = \<lparr>cmds = (\<lambda>name. Some (\<lambda>args. p)), registered = []\<rparr>"

section \<open>Auxiliary facts\<close>

lemma scan_null: "scan N Idle (ascii ''null'') = Some [Scalar JNull]"
  by (simp add: ascii_def start_def is_whitespace_def is_digit_def)

lemma JSON_parse_RNull: "JSON_parse N RNull = Inr JNull"
  by (simp add: JSON_parse_def JSON_parse_text_def scan_null)

lemma JSON_parse_throws: "JSON_parse N r = Inl e \<Longrightarrow> e = SyntaxError"
  by (auto simp: JSON_parse_def JSON_parse_text_def split: option.splits pstate.splits)

lemma map_each_all2:
  "list_all2 (\<lambda>x y. f x = Inr y) xs ys \<Longrightarrow> map_each f xs = Inr ys"
  by (induction rule: list_all2_induct) auto

lemma map_each_Inr:
  "map_each f xs = Inr ys \<Longrightarrow> list_all2 (\<lambda>x y. f x = Inr y) xs ys"
  by (induction xs arbitrary: ys) (auto split: sum.splits)

lemma map_each_iff:
  "map_each f xs = Inr ys \<longleftrightarrow> list_all2 (\<lambda>x y. f x = Inr y) xs ys"
  using map_each_all2 map_each_Inr by blast

lemma map_each_throws:
  "map_each f xs = Inl e \<Longrightarrow> \<exists>x \<in> set xs. f x = Inl e"
  by (induction xs) (auto split: sum.splits)

lemma map_each_isl: "isl (map_each f xs) \<longleftrightarrow> (\<exists>x \<in> set xs. isl (f x))"
  by (induction xs) (auto split: sum.splits)

lemma property_value_isl: "isl (property_value p) \<longleftrightarrow> isl (snd p)"
  by (simp add: property_value_def split: sum.splits)

lemma property_value_throws: "property_value p = Inl e \<Longrightarrow> snd p = Inl e"
  by (simp add: property_value_def split: sum.splits)

lemma Serialize_throws: "SerializeJSONProperty N v = Inl e \<Longrightarrow> e = TypeError BigIntValue"
proof (induction v)
  case (JArr xs)
  then obtain r where "r \<in> set (map (SerializeJSONProperty N) xs)" and "r = Inl e"
    by (auto split: sum.splits dest!: map_each_throws)
  with JArr.IH show ?case by auto
next
  case (JObj ps)
  then obtain q where "q \<in> set (map (map_prod id (SerializeJSONProperty N)) ps)"
      and "property_value q = Inl e"
    by (auto split: sum.splits dest!: map_each_throws)
  then obtain p where "p \<in> set ps" and "SerializeJSONProperty N (snd p) = Inl e"
    by (auto dest!: property_value_throws)
  with JObj.IH [of p "snd p"] show ?case by (cases p) auto
qed simp_all

lemma Serialize_isl: "isl (SerializeJSONProperty N v) \<longleftrightarrow> holds_BigInt v"
proof (induction v)
  case (JArr xs)
  have "isl (SerializeJSONProperty N (JArr xs)) \<longleftrightarrow>
      isl (map_each id (map (SerializeJSONProperty N) xs))"
    by (simp split: sum.splits)
  also have "\<dots> \<longleftrightarrow> (\<exists>x \<in> set xs. isl (SerializeJSONProperty N x))"
    by (simp add: map_each_isl)
  also have "\<dots> \<longleftrightarrow> (\<exists>x \<in> set xs. holds_BigInt x)"
    using JArr.IH by blast
  finally show ?case by auto
next
  case (JObj ps)
  have "isl (SerializeJSONProperty N (JObj ps)) \<longleftrightarrow>
      isl (map_each property_value (map (map_prod id (SerializeJSONProperty N)) ps))"
    by (simp split: sum.splits)
  also have "\<dots> \<longleftrightarrow> (\<exists>p \<in> set ps. isl (SerializeJSONProperty N (snd p)))"
    by (simp add: map_each_isl property_value_isl)
  also have "\<dots> \<longleftrightarrow> (\<exists>p \<in> set ps. holds_BigInt (snd p))"
    using JObj.IH Basic_BNFs.snds.intros by blast
  finally show ?case by (auto simp: image_iff)
qed simp_all

lemma JSON_stringify_throws: "JSON_stringify N v = Inl e \<Longrightarrow> e = TypeError BigIntValue"
  by (auto simp: JSON_stringify_def split: sum.splits option.splits dest: Serialize_throws)

lemma JSON_stringify_isl: "isl (JSON_stringify N v) \<longleftrightarrow> holds_BigInt v"
  using Serialize_isl [of N v]
  by (auto simp: JSON_stringify_def split: sum.splits option.splits)

lemma JSON_stringify_returns: "\<not> holds_BigInt v \<Longrightarrow> \<exists>s. JSON_stringify N v = Inr s"
  using JSON_stringify_isl [of N v] by (cases "JSON_stringify N v") auto

lemma JSON_stringify_text:
  assumes "\<not> holds_BigInt v" and "v \<noteq> JUndefined"
  shows "\<exists>s. SerializeJSONProperty N v = Inr (Some s) \<and> JSON_stringify N v = Inr (JStr s)"
proof -
  from assms(1) have "\<not> isl (SerializeJSONProperty N v)"
    by (simp add: Serialize_isl)
  then obtain r where r: "SerializeJSONProperty N v = Inr r"
    by (cases "SerializeJSONProperty N v") auto
  with assms(2) obtain s where "r = Some s"
    by (cases v) (auto split: sum.splits)
  with r show ?thesis
    by (simp add: JSON_stringify_def)
qed

lemma JSON_stringify_undefined: "JSON_stringify N JUndefined = Inr JUndefined"
  by (simp add: JSON_stringify_def)

lemma JSON_stringify_undefined_iff: "JSON_stringify N v = Inr JUndefined \<longleftrightarrow> v = JUndefined"
proof
  assume u: "JSON_stringify N v = Inr JUndefined"
  show "v = JUndefined"
  proof (rule ccontr)
    assume "v \<noteq> JUndefined"
    moreover from u have "\<not> holds_BigInt v"
      using JSON_stringify_isl [of N v] by auto
    ultimately obtain s where "JSON_stringify N v = Inr (JStr s)"
      using JSON_stringify_text by blast
    with u show False by simp
  qed
qed (simp add: JSON_stringify_undefined)

lemma JSON_stringify_string: "JSON_stringify N (JStr s) = Inr (JStr (QuoteJSONString s))"
  by (simp add: JSON_stringify_def)


lemma map_each_nth:
  "map_each f xs = Inr ys \<longleftrightarrow>
     length ys = length xs \<and> (\<forall>i < length xs. f (xs ! i) = Inr (ys ! i))"
  by (auto simp: map_each_iff list_all2_conv_all_nth)

lemma map_each_stringify_returns:
  assumes "\<forall>e \<in> set es. \<not> holds_BigInt e"
  shows "\<exists>items. map_each (JSON_stringify N) es = Inr items"
proof -
  from assms have "\<not> isl (map_each (JSON_stringify N) es)"
    by (simp add: map_each_isl JSON_stringify_isl)
  then show ?thesis
    by (cases "map_each (JSON_stringify N) es") auto
qed

subsection \<open>The constructor's loop\<close>

lemma registered_fold:
  "registered (fold (bind_command cr t) xs c0) = registered c0 @ xs"
  by (induction xs arbitrary: c0) (simp_all add: bind_command_def Let_def)

lemma dom_fold:
  "dom (cmds (fold (bind_command cr t) xs c0)) =
     dom (cmds c0) \<union> set xs \<union> (\<lambda>n. n @ ''Buffer'') ` set xs"
  by (induction xs arbitrary: c0) (auto simp: bind_command_def Let_def)

lemma string_fold:
  assumes "name \<in> set xs" and "\<forall>m \<in> set xs. m @ ''Buffer'' \<noteq> name"
  shows "cmds (fold (bind_command cr t) xs c0) name = Some (cmd_string (cr t name) t)"
  using assms by (induction xs rule: rev_induct) (auto simp: bind_command_def Let_def)

lemma buffer_fold:
  assumes "name \<in> set xs" and "\<forall>m \<in> set xs. m \<noteq> name @ ''Buffer''"
  shows "cmds (fold (bind_command cr t) xs c0) (name @ ''Buffer'') =
           Some (cmd_buffer (cr t name) t)"
  using assms by (induction xs rule: rev_induct) (auto simp: bind_command_def Let_def)

lemma commands_last: "\<forall>n \<in> set commands. last n \<noteq> CHR ''r''"
  by (simp add: commands_def)

lemma commands_no_buffer:
  assumes "m \<in> set commands"
  shows "n @ ''Buffer'' \<noteq> m"
proof
  assume "n @ ''Buffer'' = m"
  then have "last m = CHR ''r''" by auto
  with assms commands_last show False by blast
qed

lemma distinct_commands: "distinct commands"
  by (simp add: commands_def)

lemma count_distinct: "distinct xs \<Longrightarrow> x \<in> set xs \<Longrightarrow> count_list xs x = 1"
  by (induction xs) auto

lemma cmds_constructor:
  assumes "name \<in> set commands"
  shows "cmds (constructor cr t) name = Some (cmd_string (cr t name) t)"
    and "cmds (constructor cr t) (name @ ''Buffer'') = Some (cmd_buffer (cr t name) t)"
  using assms commands_no_buffer
  by (auto simp: constructor_def intro!: string_fold buffer_fold)

lemma facade_names:
  "''JSON.SET'' \<in> set commands" "''JSON.GET'' \<in> set commands" "''JSON.MGET'' \<in> set commands"
  "''JSON.DEL'' \<in> set commands" "''JSON.OBJKEYS'' \<in> set commands" "''JSON.OBJLEN'' \<in> set commands"
  "''JSON.TYPE'' \<in> set commands" "''JSON.NUMINCRBY'' \<in> set commands"
  "''JSON.NUMMULTBY'' \<in> set commands" "''JSON.STRAPPEND'' \<in> set commands"
  "''JSON.STRLEN'' \<in> set commands" "''JSON.ARRAPPEND'' \<in> set commands"
  "''JSON.ARRINDEX'' \<in> set commands" "''JSON.ARRINSERT'' \<in> set commands"
  "''JSON.ARRLEN'' \<in> set commands" "''JSON.ARRPOP'' \<in> set commands"
  "''JSON.ARRTRIM'' \<in> set commands"
  by (simp_all add: commands_def)

subsection \<open>Concrete collaborators\<close>

lemma cmds_replying: "cmds (replying p) name = Some (\<lambda>args. p)"
  by (simp add: replying_def)

lemma cmds_recording: "cmds recording name = Some (\<lambda>args. Fulfilled (RArr (map sent args)))"
  by (simp add: recording_def)

subsection \<open>Evaluations on concrete inputs\<close>

lemmas char_class_defs =
  start_def is_whitespace_def is_digit_def number_char_def json_number_def number_integer_def
  number_fraction_def number_exponent_def digits1_def

lemma scan_nested:
  "scan numerals Idle (ascii ''[1,[true,null]]'') =
     Some [LBracket, Scalar (JNum (ascii ''1'')), Comma, LBracket, Scalar (JBool True), Comma,
           Scalar JNull, RBracket, RBracket]"
  by (simp add: ascii_def char_class_defs numerals_def)

lemma parse_nested:
  "JSON_parse numerals (RStr (ascii ''[1,[true,null]]'')) =
     Inr (JArr [JNum (ascii ''1''), JArr [JBool True, JNull]])"
  by (simp add: JSON_parse_def JSON_parse_text_def scan_nested)

lemma scan_truncated:
  "scan numerals Idle (ascii ''[1,'') = Some [LBracket, Scalar (JNum (ascii ''1'')), Comma]"
  by (simp add: ascii_def char_class_defs numerals_def)

lemma parse_truncated: "JSON_parse numerals (RStr (ascii ''[1,'')) = Inl SyntaxError"
  by (simp add: JSON_parse_def JSON_parse_text_def scan_truncated)

lemma stringify_examples:
  "JSON_stringify numerals (JNum (ascii ''1'')) = Inr (JStr (ascii ''1''))"
  "JSON_stringify numerals (JStr (ascii ''a'')) = Inr (JStr [0x22, 0x61, 0x22])"
  "JSON_stringify numerals JNull = Inr (JStr (ascii ''null''))"
  "JSON_stringify numerals (JArr [JNull]) = Inr (JStr (ascii ''[null]''))"
  "JSON_stringify numerals (JArr [JBool True, JUndefined]) = Inr (JStr (ascii ''[true,null]''))"
  "JSON_stringify numerals (JArr [JNull, JBigInt 1, JUndefined]) = Inl (TypeError BigIntValue)"
  "JSON_stringify numerals (JObj [(ascii ''a'', JArr [JBigInt 1])]) = Inl (TypeError BigIntValue)"
  by (simp_all add: JSON_stringify_def numerals_def QuoteJSONString_def quote_unit_def
      high_surrogate_def low_surrogate_def ascii_def array_element_def property_value_def)

lemma quote_example: "QuoteJSONString (ascii ''a'') = [0x22, 0x61, 0x22]"
  by (simp add: QuoteJSONString_def quote_unit_def high_surrogate_def low_surrogate_def ascii_def)

lemmas parse_defs =
  JSON_parse_text_def ascii_def char_class_defs numerals_def unescape_def hex_value_def hex4_def
  CreateDataProperty_def array_index_def decimal_def

lemma parse_well_formed:
  "JSON_parse_text numerals (ascii ''{\"b\":1,\"a\":[],\"b\":2}'') =
     Inr (JObj [(ascii ''b'', JNum (ascii ''2'')), (ascii ''a'', JArr [])])"
  "JSON_parse_text numerals (ascii ''{\"b\":1,\"10\":2,\"9\":3}'') =
     Inr (JObj [(ascii ''9'', JNum (ascii ''3'')), (ascii ''10'', JNum (ascii ''2'')),
                (ascii ''b'', JNum (ascii ''1''))])"
  "JSON_parse_text numerals (ascii '' [ -1.5e+3 , \"x\" ] '') =
     Inr (JArr [JNum (ascii ''-1.5e+3''), JStr (ascii ''x'')])"
  "JSON_parse_text numerals
     ([0x22] @ ascii ''a'' @ [0x5C] @ ascii ''n'' @ [0x5C] @ ascii ''u0041'' @ [0x5C, 0x5C, 0x22]) =
     Inr (JStr [0x61, 0x0A, 0x41, 0x5C])"
  "JSON_parse_text numerals (ascii ''false'') = Inr (JBool False)"
  by (simp_all add: parse_defs)

lemma parse_malformed:
  "JSON_parse_text numerals (ascii '''') = Inl SyntaxError"
  "JSON_parse_text numerals (ascii ''{'') = Inl SyntaxError"
  "JSON_parse_text numerals (ascii ''[1,]'') = Inl SyntaxError"
  "JSON_parse_text numerals (ascii ''01'') = Inl SyntaxError"
  "JSON_parse_text numerals (ascii ''1.'') = Inl SyntaxError"
  "JSON_parse_text numerals (ascii ''nul'') = Inl SyntaxError"
  "JSON_parse_text numerals (ascii ''[1 2]'') = Inl SyntaxError"
  "JSON_parse_text numerals (ascii ''{\"a\"}'') = Inl SyntaxError"
  "JSON_parse_text numerals (ascii ''{\"a\":1,}'') = Inl SyntaxError"
  "JSON_parse_text numerals (ascii ''\"abc'') = Inl SyntaxError"
  "JSON_parse_text numerals ([0x22, 0x5C] @ ascii ''x'' @ [0x22]) = Inl SyntaxError"
  "JSON_parse_text numerals (ascii ''1 2'') = Inl SyntaxError"
  "JSON_parse_text numerals (ascii ''undefined'') = Inl SyntaxError"
  "JSON_parse_text numerals (ascii ''[object Object]'') = Inl SyntaxError"
  by (simp_all add: parse_defs)

lemma stringify_structures:
  "JSON_stringify numerals
     (JObj [(ascii ''a'', JArr [JNull, JUndefined]), (ascii ''u'', JUndefined),
            (ascii ''o'', JObj [])]) =
     Inr (JStr (ascii ''{\"a\":[null,null],\"o\":{}}''))"
  "JSON_stringify numerals (JStr [0x61, 0x22, 0x0A, 0x01, 0xD800, 0xD83D, 0xDE00]) =
     Inr (JStr ([0x22, 0x61, 0x5C, 0x22, 0x5C] @ ascii ''n'' @ [0x5C] @ ascii ''u0001'' @ [0x5C] @
               ascii ''ud800'' @ [0xD83D, 0xDE00, 0x22]))"
  by (simp_all add: JSON_stringify_def numerals_def QuoteJSONString_def quote_unit_def
      high_surrogate_def low_surrogate_def unicode_escape_def hex_digit_def ascii_def
      array_element_def object_member_def property_value_def)

section \<open>The claims\<close>

text \<open>
  C1. For every call of \<^verbatim>\<open>jsonArrappend\<close> and of \<^verbatim>\<open>jsonArrinsert\<close>, with any number of
  trailing elements, the bound invoker is called with the fixed prefix as it is (key and
  path for append; key, path and index for insert), followed by \<^verbatim>\<open>JSON.stringify\<close> of each
  trailing element, one argument per element, in the caller's order. The same holds when
  the call has fewer arguments than the prefix is long. When \<^verbatim>\<open>JSON.stringify\<close> throws on
  an element, the method throws and nothing is passed; it throws on no element that holds
  no BigInt, and then the serialization of every element other than \<^verbatim>\<open>undefined\<close> is a
  string, its JSON text.
\<close>

theorem variadic_arguments_in_order:
  assumes append: "cmds c ''JSON.ARRAPPEND'' = Some arrappend"
    and insert: "cmds c ''JSON.ARRINSERT'' = Some arrinsert"
  shows "jsonArrappend N c (key # path # elements) =
           (case map_each (JSON_stringify N) elements of
              Inl e \<Rightarrow> Inl e
            | Inr items \<Rightarrow> Inr (arrappend (Val key # Val path # map Val items))) \<and>
         jsonArrinsert N c (key # path # index # elements) =
           (case map_each (JSON_stringify N) elements of
              Inl e \<Rightarrow> Inl e
            | Inr items \<Rightarrow> Inr (arrinsert (Val key # Val path # Val index # map Val items))) \<and>
         jsonArrappend N c arguments =
           (case map_each (JSON_stringify N) (drop 2 arguments) of
              Inl e \<Rightarrow> Inl e
            | Inr items \<Rightarrow> Inr (arrappend (map Val (take 2 arguments) @ map Val items))) \<and>
         jsonArrinsert N c arguments =
           (case map_each (JSON_stringify N) (drop 3 arguments) of
              Inl e \<Rightarrow> Inl e
            | Inr items \<Rightarrow> Inr (arrinsert (map Val (take 3 arguments) @ map Val items))) \<and>
         (\<forall>items. map_each (JSON_stringify N) elements = Inr items \<longleftrightarrow>
            length items = length elements \<and>
            (\<forall>i < length elements. JSON_stringify N (elements ! i) = Inr (items ! i))) \<and>
         ((\<forall>e \<in> set elements. \<not> holds_BigInt e) \<longrightarrow>
            (\<exists>items. map_each (JSON_stringify N) elements = Inr items \<and>
               jsonArrappend N c (key # path # elements) =
                 Inr (arrappend (Val key # Val path # map Val items)) \<and>
               jsonArrinsert N c (key # path # index # elements) =
                 Inr (arrinsert (Val key # Val path # Val index # map Val items)))) \<and>
         (\<forall>e \<in> set elements. \<not> holds_BigInt e \<and> e \<noteq> JUndefined \<longrightarrow>
            (\<exists>s. SerializeJSONProperty N e = Inr (Some s) \<and> JSON_stringify N e = Inr (JStr s)))"
proof -
  have calls:
    "jsonArrappend N c arguments =
       (case map_each (JSON_stringify N) (drop 2 arguments) of
          Inl e \<Rightarrow> Inl e
        | Inr items \<Rightarrow> Inr (arrappend (map Val (take 2 arguments) @ map Val items)))"
    "jsonArrinsert N c arguments =
       (case map_each (JSON_stringify N) (drop 3 arguments) of
          Inl e \<Rightarrow> Inl e
        | Inr items \<Rightarrow> Inr (arrinsert (map Val (take 3 arguments) @ map Val items)))"
    for arguments
    using append insert
    by (simp_all add: jsonArrappend_def jsonArrinsert_def split: sum.splits)
  have order: "map_each (JSON_stringify N) elements = Inr items \<longleftrightarrow>
      length items = length elements \<and>
      (\<forall>i < length elements. JSON_stringify N (elements ! i) = Inr (items ! i))" for items
    by (rule map_each_nth)
  have returns: "\<exists>items. map_each (JSON_stringify N) elements = Inr items"
    if "\<forall>e \<in> set elements. \<not> holds_BigInt e"
    using that by (rule map_each_stringify_returns)
  have encoded: "\<exists>s. SerializeJSONProperty N e = Inr (Some s) \<and> JSON_stringify N e = Inr (JStr s)"
    if "\<not> holds_BigInt e" and "e \<noteq> JUndefined" for e
    using that by (rule JSON_stringify_text)
  have a: "jsonArrappend N c (key # path # elements) =
      (case map_each (JSON_stringify N) elements of
         Inl e \<Rightarrow> Inl e
       | Inr items \<Rightarrow> Inr (arrappend (Val key # Val path # map Val items)))"
    using calls(1) [of "key # path # elements"] by (simp split: sum.splits)
  have b: "jsonArrinsert N c (key # path # index # elements) =
      (case map_each (JSON_stringify N) elements of
         Inl e \<Rightarrow> Inl e
       | Inr items \<Rightarrow> Inr (arrinsert (Val key # Val path # Val index # map Val items)))"
    using calls(2) [of "key # path # index # elements"] by (simp split: sum.splits)
  have documents: "\<exists>items. map_each (JSON_stringify N) elements = Inr items \<and>
      jsonArrappend N c (key # path # elements) =
        Inr (arrappend (Val key # Val path # map Val items)) \<and>
      jsonArrinsert N c (key # path # index # elements) =
        Inr (arrinsert (Val key # Val path # Val index # map Val items))"
    if "\<forall>e \<in> set elements. \<not> holds_BigInt e"
  proof -
    from returns [OF that] obtain items where "map_each (JSON_stringify N) elements = Inr items" ..
    then show ?thesis using a b by simp
  qed
  from a b calls order documents encoded show ?thesis by blast
qed

theorem variadic_arguments_in_order_witness:
  "jsonArrappend numerals recording
     [JStr (ascii ''doc''), JStr (ascii ''.arr''), JNum (ascii ''1''), JStr (ascii ''a''), JNull] =
     Inr (Fulfilled (RArr [RStr (ascii ''doc''), RStr (ascii ''.arr''), RStr (ascii ''1''),
                           RStr [0x22, 0x61, 0x22], RStr (ascii ''null'')])) \<and>
   jsonArrinsert numerals recording
     [JStr (ascii ''doc''), JStr (ascii ''.arr''), JNum (ascii ''0''),
      JArr [JBool True, JUndefined], JStr (ascii ''a'')] =
     Inr (Fulfilled (RArr [RStr (ascii ''doc''), RStr (ascii ''.arr''), RNum (ascii ''0''),
                           RStr (ascii ''[true,null]''), RStr [0x22, 0x61, 0x22]]))"
proof -
  note t = variadic_arguments_in_order [OF cmds_recording cmds_recording, where N = numerals
      and key = "JStr (ascii ''doc'')" and path = "JStr (ascii ''.arr'')"]
  have "jsonArrappend numerals recording
      (JStr (ascii ''doc'') # JStr (ascii ''.arr'') # [JNum (ascii ''1''), JStr (ascii ''a''), JNull]) =
      Inr (Fulfilled (RArr [RStr (ascii ''doc''), RStr (ascii ''.arr''), RStr (ascii ''1''),
                            RStr [0x22, 0x61, 0x22], RStr (ascii ''null'')]))"
    using t [where elements = "[JNum (ascii ''1''), JStr (ascii ''a''), JNull]"
        and index = JNull and arguments = "[]", THEN conjunct1]
    by (simp add: stringify_examples sent_def)
  moreover have "jsonArrinsert numerals recording
      (JStr (ascii ''doc'') # JStr (ascii ''.arr'') # JNum (ascii ''0'') #
       [JArr [JBool True, JUndefined], JStr (ascii ''a'')]) =
      Inr (Fulfilled (RArr [RStr (ascii ''doc''), RStr (ascii ''.arr''), RNum (ascii ''0''),
                            RStr (ascii ''[true,null]''), RStr [0x22, 0x61, 0x22]]))"
    using t [where elements = "[JArr [JBool True, JUndefined], JStr (ascii ''a'')]"
        and index = "JNum (ascii ''0'')" and arguments = "[]", THEN conjunct2, THEN conjunct1]
    by (simp add: stringify_examples sent_def)
  ultimately show ?thesis by simp
qed

text \<open>
  C2. For every key, path and value, \<^verbatim>\<open>jsonSet\<close> calls the \<^verbatim>\<open>JSON.SET\<close> invoker with the
  key, the path and \<^verbatim>\<open>JSON.stringify(value)\<close>, which exists for every value that holds no
  BigInt. When the invoker resolves to the raw reply \<open>r\<close>, the method resolves to \<^verbatim>\<open>true\<close>
  exactly when \<open>r\<close> is the string \<^verbatim>\<open>"OK"\<close>; for every other reply it is rejected with an
  \<open>Error\<close> whose message is the reply converted to a string, which for a string reply is
  the reply itself.
\<close>

theorem jsonSet_acknowledged:
  assumes lookup: "cmds c ''JSON.SET'' = Some cmd"
  shows "(\<forall>s r. JSON_stringify N v = Inr s \<and> cmd [Val key, Val path, Val s] = Fulfilled r \<longrightarrow>
            (jsonSet N c key path v = Inr (Fulfilled True) \<longleftrightarrow> r = RStr (ascii ''OK'')) \<and>
            (r \<noteq> RStr (ascii ''OK'') \<longrightarrow>
               jsonSet N c key path v = Inr (Rejected (Error (ToString N r)))) \<and>
            (\<forall>t. r = RStr t \<and> t \<noteq> ascii ''OK'' \<longrightarrow>
               jsonSet N c key path v = Inr (Rejected (Error t)))) \<and>
         (\<not> holds_BigInt v \<longrightarrow> (\<exists>s. JSON_stringify N v = Inr s))"
  using lookup JSON_stringify_returns [of v N]
  by (auto simp: jsonSet_def)

theorem jsonSet_acknowledged_witness:
  "jsonSet numerals (replying (Fulfilled (RStr (ascii ''OK''))))
     (JStr (ascii ''doc'')) (JStr (ascii ''.'')) (JArr [JNull]) = Inr (Fulfilled True) \<and>
   jsonSet numerals (replying (Fulfilled (RStr (ascii ''ERR''))))
     (JStr (ascii ''doc'')) (JStr (ascii ''.'')) (JArr [JNull]) =
     Inr (Rejected (Error (ascii ''ERR'')))"
proof -
  have encoded: "JSON_stringify numerals (JArr [JNull]) = Inr (JStr (ascii ''[null]''))"
    by (rule stringify_examples)
  have ne: "ascii ''ERR'' \<noteq> ascii ''OK''"
    by (simp add: ascii_def)
  note ok = jsonSet_acknowledged [where N = numerals and v = "JArr [JNull]"
      and c = "replying (Fulfilled (RStr (ascii ''OK'')))", OF cmds_replying,
      THEN conjunct1, rule_format,
      where s = "JStr (ascii ''[null]'')" and r = "RStr (ascii ''OK'')"]
  note err = jsonSet_acknowledged [where N = numerals and v = "JArr [JNull]"
      and c = "replying (Fulfilled (RStr (ascii ''ERR'')))", OF cmds_replying,
      THEN conjunct1, rule_format,
      where s = "JStr (ascii ''[null]'')" and r = "RStr (ascii ''ERR'')"]
  show ?thesis
    using ok err encoded ne by simp
qed

text \<open>
  C3. For every key and path, \<^verbatim>\<open>jsonGet\<close> calls the \<^verbatim>\<open>JSON.GET\<close> invoker with the key and
  the path as they are and hands the raw reply to \<^verbatim>\<open>JSON.parse\<close>: a nil reply (the key is
  absent) resolves to \<^verbatim>\<open>null\<close>, a reply that parses resolves to the parsed value, and a
  reply that does not parse rejects with the parser's \<open>SyntaxError\<close>.
\<close>

theorem jsonGet_parses_reply:
  assumes lookup: "cmds c ''JSON.GET'' = Some cmd"
  shows "jsonGet N c key path = Inr (promise_then (cmd [Val key, Val path]) (JSON_parse N)) \<and>
         (cmd [Val key, Val path] = Fulfilled RNull \<longrightarrow>
            jsonGet N c key path = Inr (Fulfilled JNull)) \<and>
         (\<forall>r v. cmd [Val key, Val path] = Fulfilled r \<and> JSON_parse N r = Inr v \<longrightarrow>
            jsonGet N c key path = Inr (Fulfilled v)) \<and>
         (\<forall>r e. cmd [Val key, Val path] = Fulfilled r \<and> JSON_parse N r = Inl e \<longrightarrow>
            e = SyntaxError \<and> jsonGet N c key path = Inr (Rejected SyntaxError))"
  using lookup JSON_parse_throws [of N]
  by (auto simp: jsonGet_def JSON_parse_RNull)

theorem jsonGet_parses_reply_witness:
  "jsonGet numerals (replying (Fulfilled RNull)) (JStr (ascii ''doc'')) (JStr (ascii ''.'')) =
     Inr (Fulfilled JNull) \<and>
   jsonGet numerals (replying (Fulfilled (RStr (ascii ''[1,[true,null]]''))))
     (JStr (ascii ''doc'')) (JStr (ascii ''.'')) =
     Inr (Fulfilled (JArr [JNum (ascii ''1''), JArr [JBool True, JNull]])) \<and>
   jsonGet numerals (replying (Fulfilled (RStr (ascii ''[1,''))))
     (JStr (ascii ''doc'')) (JStr (ascii ''.'')) = Inr (Rejected SyntaxError)"
  using jsonGet_parses_reply [where N = numerals and c = "replying (Fulfilled RNull)",
      OF cmds_replying]
    jsonGet_parses_reply [where N = numerals
      and c = "replying (Fulfilled (RStr (ascii ''[1,[true,null]]'')))", OF cmds_replying]
    jsonGet_parses_reply [where N = numerals
      and c = "replying (Fulfilled (RStr (ascii ''[1,'')))", OF cmds_replying]
    parse_nested parse_truncated
  by (simp add: JSON_parse_RNull)

text \<open>
  C4. The claim is that \<^verbatim>\<open>jsonobjkeys\<close> calls the \<^verbatim>\<open>JSON.OBJKEYS\<close> invoker with exactly the
  two arguments key and path. The code calls \<^verbatim>\<open>cmd(this, key, path)\<close>: for every key and
  path the invoker receives three arguments, the client object first, and that list is
  never the two-element list of the claim, which is what the sibling \<^verbatim>\<open>jsonObjlen\<close>
  passes. The reply does pass through unchanged.
\<close>

theorem jsonobjkeys_arguments:
  assumes keys: "cmds c ''JSON.OBJKEYS'' = Some objkeys_cmd"
    and len: "cmds c ''JSON.OBJLEN'' = Some objlen_cmd"
  shows "jsonobjkeys c key path = Inr (objkeys_cmd [This, Val key, Val path]) \<and>
         [This, Val key, Val path] \<noteq> [Val key, Val path] \<and>
         jsonObjlen c key path = Inr (objlen_cmd [Val key, Val path])"
  using keys len by (simp add: jsonobjkeys_def jsonObjlen_def)

theorem jsonobjkeys_arguments_witness:
  "jsonobjkeys recording (JStr (ascii ''doc'')) (JStr (ascii ''.'')) =
     Inr (Fulfilled (RArr [RStr (ascii ''[object Object]''), RStr (ascii ''doc''),
                           RStr (ascii ''.'')]) :: jstring reply promise) \<and>
   jsonObjlen recording (JStr (ascii ''doc'')) (JStr (ascii ''.'')) =
     Inr (Fulfilled (RArr [RStr (ascii ''doc''), RStr (ascii ''.'')]) :: jstring reply promise)"
  using jsonobjkeys_arguments [OF cmds_recording cmds_recording,
      of "JStr (ascii ''doc'')" "JStr (ascii ''.'')"]
  by (simp add: sent_def)

text \<open>
  C5. For every key and path, \<^verbatim>\<open>jsonDel\<close> calls the \<^verbatim>\<open>JSON.DEL\<close> invoker with the key and
  the path as they are. When the invoker resolves to the raw reply \<open>r\<close>, the method
  resolves to \<^verbatim>\<open>true\<close> exactly when \<open>r\<close> is the Number 1, and to \<^verbatim>\<open>false\<close> for every other
  reply.
\<close>

theorem jsonDel_counts_one:
  assumes lookup: "cmds c ''JSON.DEL'' = Some cmd"
    and reply: "cmd [Val key, Val path] = Fulfilled r"
  shows "(jsonDel N c key path = Inr (Fulfilled True) \<longleftrightarrow> r = RNum (number_one N)) \<and>
         (jsonDel N c key path = Inr (Fulfilled False) \<longleftrightarrow> r \<noteq> RNum (number_one N))"
  using lookup reply by (auto simp: jsonDel_def)

theorem jsonDel_counts_one_witness:
  "jsonDel numerals (replying (Fulfilled (RNum (ascii ''1''))))
     (JStr (ascii ''doc'')) (JStr (ascii ''.'')) = Inr (Fulfilled True) \<and>
   jsonDel numerals (replying (Fulfilled (RNum (ascii ''0''))))
     (JStr (ascii ''doc'')) (JStr (ascii ''.'')) = Inr (Fulfilled False)"
proof -
  have one:
    "(\<lambda>args. Fulfilled (RNum (ascii ''1''))) [Val (JStr (ascii ''doc'')), Val (JStr (ascii ''.''))] =
       Fulfilled (RNum (ascii ''1'') :: jstring reply)"
    by simp
  have zero:
    "(\<lambda>args. Fulfilled (RNum (ascii ''0''))) [Val (JStr (ascii ''doc'')), Val (JStr (ascii ''.''))] =
       Fulfilled (RNum (ascii ''0'') :: jstring reply)"
    by simp
  have ne: "ascii ''0'' \<noteq> ascii ''1''"
    by (simp add: ascii_def)
  show ?thesis
    using jsonDel_counts_one [OF cmds_replying one, of numerals]
      jsonDel_counts_one [OF cmds_replying zero, of numerals] ne
    by (simp add: numerals_def)
qed

text \<open>
  C6. For every argument list, \<^verbatim>\<open>jsonMget\<close> calls the \<^verbatim>\<open>JSON.MGET\<close> invoker with all the
  arguments as they are. When the raw reply is an array, the method resolves to a
  sequence \<open>vs\<close> exactly when \<open>vs\<close> is as long as the reply and its element at each
  position is \<^verbatim>\<open>JSON.parse\<close> of the reply's element at that position; it rejects only with
  a \<open>SyntaxError\<close>, of an element that does not parse.
\<close>

theorem jsonMget_parses_each:
  assumes lookup: "cmds c ''JSON.MGET'' = Some cmd"
  shows "jsonMget N c arguments =
           Inr (promise_then (cmd (map Val arguments))
                 (\<lambda>results. lodash_map results (JSON_parse N))) \<and>
         (\<forall>rs vs. cmd (map Val arguments) = Fulfilled (RArr rs) \<longrightarrow>
            (jsonMget N c arguments = Inr (Fulfilled vs) \<longleftrightarrow>
               length vs = length rs \<and>
               (\<forall>i < length rs. JSON_parse N (rs ! i) = Inr (vs ! i)))) \<and>
         (\<forall>rs e. cmd (map Val arguments) = Fulfilled (RArr rs) \<and>
            jsonMget N c arguments = Inr (Rejected e) \<longrightarrow>
            e = SyntaxError \<and> (\<exists>r \<in> set rs. JSON_parse N r = Inl SyntaxError))"
proof -
  have call: "jsonMget N c arguments =
      Inr (promise_then (cmd (map Val arguments)) (\<lambda>results. lodash_map results (JSON_parse N)))"
    using lookup by (simp add: jsonMget_def)
  have ok: "jsonMget N c arguments = Inr (Fulfilled vs) \<longleftrightarrow>
      length vs = length rs \<and> (\<forall>i < length rs. JSON_parse N (rs ! i) = Inr (vs ! i))"
    if "cmd (map Val arguments) = Fulfilled (RArr rs)" for rs vs
  proof -
    have "jsonMget N c arguments = Inr (Fulfilled vs) \<longleftrightarrow> map_each (JSON_parse N) rs = Inr vs"
      using that by (simp add: call lodash_map_def collection_def split: sum.splits)
    also have "\<dots> \<longleftrightarrow> list_all2 (\<lambda>r v. JSON_parse N r = Inr v) rs vs"
      by (rule map_each_iff)
    also have "\<dots> \<longleftrightarrow> length vs = length rs \<and> (\<forall>i < length rs. JSON_parse N (rs ! i) = Inr (vs ! i))"
      by (auto simp: list_all2_conv_all_nth)
    finally show ?thesis .
  qed
  have bad: "e = SyntaxError \<and> (\<exists>r \<in> set rs. JSON_parse N r = Inl SyntaxError)"
    if "cmd (map Val arguments) = Fulfilled (RArr rs)"
      and "jsonMget N c arguments = Inr (Rejected e)" for rs e
  proof -
    have "map_each (JSON_parse N) rs = Inl e"
      using that by (simp add: call lodash_map_def collection_def split: sum.splits)
    then obtain r where "r \<in> set rs" and "JSON_parse N r = Inl e"
      using map_each_throws by blast
    then show ?thesis
      using JSON_parse_throws by blast
  qed
  from call ok bad show ?thesis by blast
qed

theorem jsonMget_parses_each_witness:
  "jsonMget numerals
     (replying (Fulfilled (RArr [RStr (ascii ''[1,[true,null]]''), RNull])))
     [JStr (ascii ''a''), JStr (ascii ''b''), JStr (ascii ''.'')] =
     Inr (Fulfilled [JArr [JNum (ascii ''1''), JArr [JBool True, JNull]], JNull])"
proof -
  let ?rs = "[RStr (ascii ''[1,[true,null]]''), RNull :: jstring reply]"
  let ?vs = "[JArr [JNum (ascii ''1''), JArr [JBool True, JNull]], JNull :: jstring jsval]"
  let ?args = "[JStr (ascii ''a''), JStr (ascii ''b''), JStr (ascii ''.'') :: jstring jsval]"
  have each: "\<forall>i < length ?rs. JSON_parse numerals (?rs ! i) = Inr (?vs ! i)"
    by (simp add: less_Suc_eq parse_nested JSON_parse_RNull)
  have "jsonMget numerals (replying (Fulfilled (RArr ?rs))) ?args = Inr (Fulfilled ?vs) \<longleftrightarrow>
      length ?vs = length ?rs \<and> (\<forall>i < length ?rs. JSON_parse numerals (?rs ! i) = Inr (?vs ! i))"
    using jsonMget_parses_each [where N = numerals and c = "replying (Fulfilled (RArr ?rs))"
        and arguments = ?args, OF cmds_replying]
    by blast
  with each show ?thesis by simp
qed

text \<open>
  C7. After construction, for every command name of the table the dictionary holds the
  text invoker under the name and the binary invoker under the name followed by
  \<^verbatim>\<open>Buffer\<close>, each the function that \<^verbatim>\<open>createBuiltinCommand\<close> returned for that name,
  bound to this instance; \<^verbatim>\<open>createBuiltinCommand\<close> was called once for each name, in
  the order of the table; the dictionary has no other keys; and no facade method fails
  to find its invoker: a method throws only where \<^verbatim>\<open>JSON.stringify\<close> throws on an operand
  of the caller's, which is where that operand holds a BigInt.
\<close>

theorem constructor_binds_every_command:
  fixes create :: "'t \<Rightarrow> string \<Rightarrow> ('t, 'n) builtin" and N :: "'n numbers"
  assumes c: "c = constructor create this"
  shows "(\<forall>name \<in> set commands.
            cmds c name = Some (cmd_string (create this name) this) \<and>
            cmds c (name @ ''Buffer'') = Some (cmd_buffer (create this name) this) \<and>
            count_list (registered c) name = 1) \<and>
         registered c = commands \<and>
         dom (cmds c) = set commands \<union> (\<lambda>name. name @ ''Buffer'') ` set commands \<and>
         (isl (jsonSet N c key path v) \<longleftrightarrow> holds_BigInt v) \<and>
         \<not> isl (jsonGet N c key path) \<and>
         \<not> isl (jsonMget N c arguments) \<and>
         \<not> isl (jsonDel N c key path) \<and>
         \<not> isl (jsonobjkeys c key path) \<and>
         \<not> isl (jsonObjlen c key path) \<and>
         \<not> isl (jsonType c key path) \<and>
         \<not> isl (jsonNumincrby N c key path v) \<and>
         \<not> isl (jsonNummultby N c key path v) \<and>
         (isl (jsonStrappend N c key path v) \<longleftrightarrow> holds_BigInt v) \<and>
         \<not> isl (jsonStrlen c key path) \<and>
         (isl (jsonArrappend N c arguments) \<longleftrightarrow>
            (\<exists>e \<in> set (drop 2 arguments). holds_BigInt e)) \<and>
         (isl (jsonArrindex N c key path v) \<longleftrightarrow> holds_BigInt v) \<and>
         (isl (jsonArrinsert N c arguments) \<longleftrightarrow>
            (\<exists>e \<in> set (drop 3 arguments). holds_BigInt e)) \<and>
         \<not> isl (jsonArrlen c key path) \<and>
         \<not> isl (jsonArrpop N c key path v) \<and>
         \<not> isl (jsonArrtrim c key path v w) \<and>
         jsonSet N c key path v \<noteq> Inl (TypeError NotCallable) \<and>
         jsonStrappend N c key path v \<noteq> Inl (TypeError NotCallable) \<and>
         jsonArrappend N c arguments \<noteq> Inl (TypeError NotCallable) \<and>
         jsonArrindex N c key path v \<noteq> Inl (TypeError NotCallable) \<and>
         jsonArrinsert N c arguments \<noteq> Inl (TypeError NotCallable)"
proof -
  have log: "registered c = commands"
    by (simp add: c constructor_def registered_fold)
  have bound: "cmds c name = Some (cmd_string (create this name) this) \<and>
      cmds c (name @ ''Buffer'') = Some (cmd_buffer (create this name) this) \<and>
      count_list (registered c) name = 1" if "name \<in> set commands" for name
    using that by (simp add: c cmds_constructor log [unfolded c] count_distinct distinct_commands)
  have keys: "dom (cmds c) = set commands \<union> (\<lambda>name. name @ ''Buffer'') ` set commands"
    by (simp add: c constructor_def dom_fold)
  have methods:
    "\<not> isl (jsonGet N c key path)"
    "\<not> isl (jsonMget N c arguments)" "\<not> isl (jsonDel N c key path)"
    "\<not> isl (jsonobjkeys c key path)" "\<not> isl (jsonObjlen c key path)"
    "\<not> isl (jsonType c key path)" "\<not> isl (jsonNumincrby N c key path v)"
    "\<not> isl (jsonNummultby N c key path v)"
    "\<not> isl (jsonStrlen c key path)"
    "\<not> isl (jsonArrlen c key path)" "\<not> isl (jsonArrpop N c key path v)"
    "\<not> isl (jsonArrtrim c key path v w)"
    by (simp_all add: c cmds_constructor facade_names jsonGet_def jsonMget_def
        jsonDel_def jsonobjkeys_def jsonObjlen_def jsonType_def jsonNumincrby_def
        jsonNummultby_def jsonStrlen_def jsonArrlen_def jsonArrpop_def jsonArrtrim_def)
  have one:
    "isl (jsonSet N c key path v) \<longleftrightarrow> holds_BigInt v"
    "isl (jsonStrappend N c key path v) \<longleftrightarrow> holds_BigInt v"
    "isl (jsonArrindex N c key path v) \<longleftrightarrow> holds_BigInt v"
    using JSON_stringify_isl [of N v]
    by (auto simp: c cmds_constructor facade_names jsonSet_def jsonStrappend_def
        jsonArrindex_def split: sum.splits)
  have many:
    "isl (jsonArrappend N c arguments) \<longleftrightarrow> (\<exists>e \<in> set (drop 2 arguments). holds_BigInt e)"
    "isl (jsonArrinsert N c arguments) \<longleftrightarrow> (\<exists>e \<in> set (drop 3 arguments). holds_BigInt e)"
    using map_each_isl [of "JSON_stringify N" "drop 2 arguments"]
      map_each_isl [of "JSON_stringify N" "drop 3 arguments"]
    by (auto simp: c cmds_constructor facade_names jsonArrappend_def jsonArrinsert_def
        JSON_stringify_isl split: sum.splits)
  have found:
    "jsonSet N c key path v \<noteq> Inl (TypeError NotCallable)"
    "jsonStrappend N c key path v \<noteq> Inl (TypeError NotCallable)"
    "jsonArrindex N c key path v \<noteq> Inl (TypeError NotCallable)"
    "jsonArrappend N c arguments \<noteq> Inl (TypeError NotCallable)"
    "jsonArrinsert N c arguments \<noteq> Inl (TypeError NotCallable)"
    by (auto simp: c cmds_constructor facade_names jsonSet_def jsonStrappend_def
        jsonArrindex_def jsonArrappend_def jsonArrinsert_def
        split: sum.splits dest!: JSON_stringify_throws map_each_throws)
  from bound log keys methods one many found show ?thesis by blast
qed

theorem constructor_binds_every_command_witness:
  "(case cmds (constructor echo ''A'') ''JSON.GET'' of
      None \<Rightarrow> Pending
    | Some cmd \<Rightarrow> cmd [Val (JStr (ascii ''doc''))]) =
     Fulfilled (RArr [RStr (ascii ''JSON.GET''), RStr (ascii ''A''), RStr (ascii ''doc'') :: jstring reply]) \<and>
   (case cmds (constructor echo ''B'') ''JSON.GETBuffer'' of
      None \<Rightarrow> Pending
    | Some cmd \<Rightarrow> cmd [Val (JStr (ascii ''doc''))]) =
     Fulfilled (RArr [RStr (ascii ''JSON.GET''), RStr (ascii ''B''), RStr (ascii ''doc'') :: jstring reply]) \<and>
   registered (constructor echo ''A'' :: jstring client) = commands"
proof -
  have name: "''JSON.GET'' \<in> set commands"
    by (rule facade_names)
  note a = constructor_binds_every_command [where create = echo and this = "''A''", OF refl]
  note b = constructor_binds_every_command [where create = echo and this = "''B''", OF refl]
  have "cmds (constructor echo ''A'') ''JSON.GET'' =
      Some (cmd_string (echo ''A'' ''JSON.GET'' :: (string, jstring) builtin) ''A'')"
    using a name by blast
  moreover have "cmds (constructor echo ''B'') (''JSON.GET'' @ ''Buffer'') =
      Some (cmd_buffer (echo ''B'' ''JSON.GET'' :: (string, jstring) builtin) ''B'')"
    using b name by blast
  moreover have "registered (constructor echo ''A'' :: jstring client) = commands"
    using a by blast
  ultimately show ?thesis
    by (simp add: echo_def sent_def)
qed

text \<open>
  C8. Serialization is per argument. In every facade method the key, the path, the
  index and index range, and the numeric operand of \<^verbatim>\<open>jsonNumincrby\<close> and
  \<^verbatim>\<open>jsonNummultby\<close> reach the invoker as the caller gave them; the value of \<^verbatim>\<open>jsonSet\<close>,
  the operand of \<^verbatim>\<open>jsonStrappend\<close> (a string arrives quoted as a JSON string literal),
  the scalar of \<^verbatim>\<open>jsonArrindex\<close> and the trailing elements of \<^verbatim>\<open>jsonArrappend\<close> and
  \<^verbatim>\<open>jsonArrinsert\<close> reach it through \<^verbatim>\<open>JSON.stringify\<close>, which returns for every operand
  that holds no BigInt; where it throws, the method throws and nothing reaches the
  invoker.
\<close>

theorem selective_serialization:
  assumes "cmds c ''JSON.SET'' = Some set_cmd"
    and "cmds c ''JSON.GET'' = Some get_cmd"
    and "cmds c ''JSON.MGET'' = Some mget_cmd"
    and "cmds c ''JSON.DEL'' = Some del_cmd"
    and "cmds c ''JSON.OBJKEYS'' = Some objkeys_cmd"
    and "cmds c ''JSON.OBJLEN'' = Some objlen_cmd"
    and "cmds c ''JSON.TYPE'' = Some type_cmd"
    and "cmds c ''JSON.NUMINCRBY'' = Some numincrby_cmd"
    and "cmds c ''JSON.NUMMULTBY'' = Some nummultby_cmd"
    and "cmds c ''JSON.STRAPPEND'' = Some strappend_cmd"
    and "cmds c ''JSON.STRLEN'' = Some strlen_cmd"
    and "cmds c ''JSON.ARRAPPEND'' = Some arrappend_cmd"
    and "cmds c ''JSON.ARRINDEX'' = Some arrindex_cmd"
    and "cmds c ''JSON.ARRINSERT'' = Some arrinsert_cmd"
    and "cmds c ''JSON.ARRLEN'' = Some arrlen_cmd"
    and "cmds c ''JSON.ARRPOP'' = Some arrpop_cmd"
    and "cmds c ''JSON.ARRTRIM'' = Some arrtrim_cmd"
  shows "jsonNumincrby N c key path number =
           Inr (promise_then (numincrby_cmd [Val key, Val path, Val number])
                 (\<lambda>result. Inr (parseFloat N result))) \<and>
         jsonNummultby N c key path number =
           Inr (promise_then (nummultby_cmd [Val key, Val path, Val number])
                 (\<lambda>result. Inr (parseFloat N result))) \<and>
         jsonStrappend N c key path v =
           (case JSON_stringify N v of
              Inl e \<Rightarrow> Inl e
            | Inr s \<Rightarrow> Inr (strappend_cmd [Val key, Val path, Val s])) \<and>
         jsonStrappend N c key path (JStr s) =
           Inr (strappend_cmd [Val key, Val path, Val (JStr (QuoteJSONString s))]) \<and>
         jsonArrindex N c key path v =
           (case JSON_stringify N v of
              Inl e \<Rightarrow> Inl e
            | Inr s \<Rightarrow> Inr (arrindex_cmd [Val key, Val path, Val s])) \<and>
         jsonArrappend N c (key # path # elements) =
           (case map_each (JSON_stringify N) elements of
              Inl e \<Rightarrow> Inl e
            | Inr items \<Rightarrow> Inr (arrappend_cmd (Val key # Val path # map Val items))) \<and>
         jsonArrinsert N c (key # path # index # elements) =
           (case map_each (JSON_stringify N) elements of
              Inl e \<Rightarrow> Inl e
            | Inr items \<Rightarrow>
                Inr (arrinsert_cmd (Val key # Val path # Val index # map Val items))) \<and>
         jsonSet N c key path v =
           (case JSON_stringify N v of
              Inl e \<Rightarrow> Inl e
            | Inr s \<Rightarrow>
                Inr (promise_then (set_cmd [Val key, Val path, Val s])
                      (\<lambda>result. if result = RStr (ascii ''OK'') then Inr True
                                 else Inl (Error (ToString N result))))) \<and>
         (\<not> holds_BigInt v \<longrightarrow> (\<exists>s. JSON_stringify N v = Inr s)) \<and>
         ((\<forall>e \<in> set elements. \<not> holds_BigInt e) \<longrightarrow>
            (\<exists>items. map_each (JSON_stringify N) elements = Inr items)) \<and>
         (\<forall>items. map_each (JSON_stringify N) elements = Inr items \<longleftrightarrow>
            length items = length elements \<and>
            (\<forall>i < length elements. JSON_stringify N (elements ! i) = Inr (items ! i))) \<and>
         jsonGet N c key path = Inr (promise_then (get_cmd [Val key, Val path]) (JSON_parse N)) \<and>
         jsonMget N c arguments =
           Inr (promise_then (mget_cmd (map Val arguments))
                 (\<lambda>results. lodash_map results (JSON_parse N))) \<and>
         jsonDel N c key path =
           Inr (promise_then (del_cmd [Val key, Val path])
                 (\<lambda>result. Inr (result = RNum (number_one N)))) \<and>
         jsonobjkeys c key path = Inr (objkeys_cmd [This, Val key, Val path]) \<and>
         jsonObjlen c key path = Inr (objlen_cmd [Val key, Val path]) \<and>
         jsonType c key path = Inr (type_cmd [Val key, Val path]) \<and>
         jsonStrlen c key path = Inr (strlen_cmd [Val key, Val path]) \<and>
         jsonArrlen c key path = Inr (arrlen_cmd [Val key, Val path]) \<and>
         jsonArrpop N c key path index =
           Inr (promise_then (arrpop_cmd [Val key, Val path, Val index]) (JSON_parse N)) \<and>
         jsonArrtrim c key path start_index end_index =
           Inr (arrtrim_cmd [Val key, Val path, Val start_index, Val end_index])"
proof -
  have plain:
    "jsonNumincrby N c key path number =
       Inr (promise_then (numincrby_cmd [Val key, Val path, Val number])
             (\<lambda>result. Inr (parseFloat N result)))"
    "jsonNummultby N c key path number =
       Inr (promise_then (nummultby_cmd [Val key, Val path, Val number])
             (\<lambda>result. Inr (parseFloat N result)))"
    "jsonGet N c key path = Inr (promise_then (get_cmd [Val key, Val path]) (JSON_parse N))"
    "jsonMget N c arguments =
       Inr (promise_then (mget_cmd (map Val arguments))
             (\<lambda>results. lodash_map results (JSON_parse N)))"
    "jsonDel N c key path =
       Inr (promise_then (del_cmd [Val key, Val path])
             (\<lambda>result. Inr (result = RNum (number_one N))))"
    "jsonobjkeys c key path = Inr (objkeys_cmd [This, Val key, Val path])"
    "jsonObjlen c key path = Inr (objlen_cmd [Val key, Val path])"
    "jsonType c key path = Inr (type_cmd [Val key, Val path])"
    "jsonStrlen c key path = Inr (strlen_cmd [Val key, Val path])"
    "jsonArrlen c key path = Inr (arrlen_cmd [Val key, Val path])"
    "jsonArrpop N c key path index =
       Inr (promise_then (arrpop_cmd [Val key, Val path, Val index]) (JSON_parse N))"
    "jsonArrtrim c key path start_index end_index =
       Inr (arrtrim_cmd [Val key, Val path, Val start_index, Val end_index])"
    using assms
    by (simp_all add: jsonGet_def jsonMget_def jsonDel_def jsonobjkeys_def jsonObjlen_def
        jsonType_def jsonNumincrby_def jsonNummultby_def jsonStrlen_def jsonArrlen_def
        jsonArrpop_def jsonArrtrim_def)
  have one:
    "jsonStrappend N c key path v =
       (case JSON_stringify N v of
          Inl e \<Rightarrow> Inl e
        | Inr s \<Rightarrow> Inr (strappend_cmd [Val key, Val path, Val s]))"
    "jsonArrindex N c key path v =
       (case JSON_stringify N v of
          Inl e \<Rightarrow> Inl e
        | Inr s \<Rightarrow> Inr (arrindex_cmd [Val key, Val path, Val s]))"
    "jsonSet N c key path v =
       (case JSON_stringify N v of
          Inl e \<Rightarrow> Inl e
        | Inr s \<Rightarrow>
            Inr (promise_then (set_cmd [Val key, Val path, Val s])
                  (\<lambda>result. if result = RStr (ascii ''OK'') then Inr True
                             else Inl (Error (ToString N result)))))"
    using assms
    by (simp_all add: jsonStrappend_def jsonArrindex_def jsonSet_def split: sum.splits)
  have quoted: "jsonStrappend N c key path (JStr s) =
      Inr (strappend_cmd [Val key, Val path, Val (JStr (QuoteJSONString s))])"
    using assms by (simp add: jsonStrappend_def JSON_stringify_string)
  have many:
    "jsonArrappend N c (key # path # elements) =
       (case map_each (JSON_stringify N) elements of
          Inl e \<Rightarrow> Inl e
        | Inr items \<Rightarrow> Inr (arrappend_cmd (Val key # Val path # map Val items)))"
    "jsonArrinsert N c (key # path # index # elements) =
       (case map_each (JSON_stringify N) elements of
          Inl e \<Rightarrow> Inl e
        | Inr items \<Rightarrow>
            Inr (arrinsert_cmd (Val key # Val path # Val index # map Val items)))"
    using assms
    by (simp_all add: jsonArrappend_def jsonArrinsert_def split: sum.splits)
  have returns:
    "\<not> holds_BigInt v \<longrightarrow> (\<exists>s. JSON_stringify N v = Inr s)"
    "(\<forall>e \<in> set elements. \<not> holds_BigInt e) \<longrightarrow>
       (\<exists>items. map_each (JSON_stringify N) elements = Inr items)"
    using JSON_stringify_returns [of v N] map_each_stringify_returns [of elements N]
    by blast+
  have order: "\<forall>items. map_each (JSON_stringify N) elements = Inr items \<longleftrightarrow>
      length items = length elements \<and>
      (\<forall>i < length elements. JSON_stringify N (elements ! i) = Inr (items ! i))"
    by (simp add: map_each_nth)
  show ?thesis
    by (intro conjI) (rule plain one quoted many returns order)+
qed

theorem selective_serialization_witness:
  "jsonNumincrby numerals recording (JStr (ascii ''doc'')) (JStr (ascii ''.x'')) (JNum (ascii ''5'')) =
     Inr (Fulfilled (ascii ''doc,.x,5'')) \<and>
   jsonStrappend numerals recording (JStr (ascii ''doc'')) (JStr (ascii ''.x'')) (JStr (ascii ''a'')) =
     Inr (Fulfilled (RArr [RStr (ascii ''doc''), RStr (ascii ''.x''), RStr [0x22, 0x61, 0x22]])) \<and>
   jsonArrindex numerals recording (JStr (ascii ''doc'')) (JStr (ascii ''.x'')) (JNum (ascii ''1'')) =
     Inr (Fulfilled (RArr [RStr (ascii ''doc''), RStr (ascii ''.x''), RStr (ascii ''1'')]))"
proof -
  note t = selective_serialization [where N = numerals and c = recording
      and key = "JStr (ascii ''doc'')" and path = "JStr (ascii ''.x'')"
      and number = "JNum (ascii ''5'')" and v = "JNum (ascii ''1'')" and s = "ascii ''a''"
      and elements = "[]" and index = JNull and arguments = "[]"
      and start_index = JNull and end_index = JNull,
      OF cmds_recording cmds_recording cmds_recording cmds_recording cmds_recording
      cmds_recording cmds_recording cmds_recording cmds_recording cmds_recording cmds_recording
      cmds_recording cmds_recording cmds_recording cmds_recording cmds_recording cmds_recording]
  have "jsonNumincrby numerals recording (JStr (ascii ''doc'')) (JStr (ascii ''.x''))
      (JNum (ascii ''5'')) = Inr (Fulfilled (ascii ''doc,.x,5''))"
    using t [THEN conjunct1] by (simp add: sent_def parseFloat_def numerals_def ascii_def)
  moreover have "jsonStrappend numerals recording (JStr (ascii ''doc'')) (JStr (ascii ''.x''))
      (JStr (ascii ''a'')) =
      Inr (Fulfilled (RArr [RStr (ascii ''doc''), RStr (ascii ''.x''), RStr [0x22, 0x61, 0x22]]))"
    using t [THEN conjunct2, THEN conjunct2, THEN conjunct2, THEN conjunct1]
    by (simp add: sent_def quote_example)
  moreover have "jsonArrindex numerals recording (JStr (ascii ''doc'')) (JStr (ascii ''.x''))
      (JNum (ascii ''1'')) =
      Inr (Fulfilled (RArr [RStr (ascii ''doc''), RStr (ascii ''.x''), RStr (ascii ''1'')]))"
    using t [THEN conjunct2, THEN conjunct2, THEN conjunct2, THEN conjunct2, THEN conjunct1]
    by (simp add: sent_def stringify_examples)
  ultimately show ?thesis by blast
qed

text \<open>
  C9. For every key, path and index, \<^verbatim>\<open>jsonArrpop\<close> hands the raw reply to
  \<^verbatim>\<open>JSON.parse\<close>; when the store replies nil (as for a pop from an empty array), the
  method resolves to \<^verbatim>\<open>null\<close> and does not fail.
\<close>

theorem jsonArrpop_null_reply:
  assumes lookup: "cmds c ''JSON.ARRPOP'' = Some cmd"
  shows "jsonArrpop N c key path index =
           Inr (promise_then (cmd [Val key, Val path, Val index]) (JSON_parse N)) \<and>
         (cmd [Val key, Val path, Val index] = Fulfilled RNull \<longrightarrow>
            jsonArrpop N c key path index = Inr (Fulfilled JNull))"
  using lookup by (simp add: jsonArrpop_def JSON_parse_RNull)

theorem jsonArrpop_null_reply_witness:
  "jsonArrpop numerals (replying (Fulfilled RNull))
     (JStr (ascii ''doc'')) (JStr (ascii ''.arr'')) (JNum (ascii ''0'')) = Inr (Fulfilled JNull)"
  using jsonArrpop_null_reply [where N = numerals and c = "replying (Fulfilled RNull)",
      OF cmds_replying]
  by (simp add: JSON_parse_RNull)




end
